theory Spec2Isabelle
  imports Main "HOL-Library.Sublist" "HOL-Library.AList"
begin

section \<open>Plugin Manager: the plugin lifecycle of pmplugin.py\<close>

text \<open>
  The development embeds the classes \<open>Plugin\<close> and \<open>Plugins\<close> of
  \<^verbatim>\<open>src/pluginmanager/pmplugin.py\<close>. Python objects are mutated in place, so every
  method takes the record and the world and returns them updated, together with the
  value returned or the exception raised (\<open>Inl\<close>). What the code reaches outside the
  repository is kept apart from it: the filesystem, the configparser and zipfile
  libraries and the code of the plugins themselves are fields of an environment record
  and every theorem holds for all of them; the host settings store, \<open>sys.modules\<close> and
  the host's actions, extensions and menus are fields of the world.
\<close>

subsection \<open>Exceptions\<close>

text \<open>
  Modelled from the spec: the classes \<open>EInvalidType\<close> and \<open>EInvalidValue\<close>, which
  \<^verbatim>\<open>pmplugin.py\<close> imports from \<^verbatim>\<open>pmexceptions.py\<close>, a file that is not among the
  sources; they are the spec's \<open>InvalidArgument\<close>, raised for an argument of the wrong
  type or value. \<open>KeyError\<close> and \<open>NameError\<close> are Python's, and \<open>LibraryError\<close>
  stands for what a library, the operating system or the code of a plugin raises.
\<close>

datatype exn =
    EInvalidType
  | EInvalidValue
  | KeyError
  | NameError
  | LibraryError string

subsection \<open>Strings, regular expressions and posixpath\<close>

definition slash :: char where
  "slash = CHR ''/''"

definition newline :: char where
  "newline = CHR 0x0A"

text \<open>
  \<^verbatim>\<open>re.search(re.escape(suf) + '$', s)\<close>: without MULTILINE, \<open>$\<close> matches at the end
  of the string and also just before a newline that ends the string.
\<close>

definition re_search_end :: "string \<Rightarrow> string \<Rightarrow> bool" where
  "re_search_end suf s \<longleftrightarrow> suffix suf s \<or> suffix (suf @ [newline]) s"

text \<open>\<^verbatim>\<open>posixpath.join(a, b)\<close> for two components.\<close>

definition os_path_join :: "string \<Rightarrow> string \<Rightarrow> string" where
  "os_path_join a b =
     (if b \<noteq> [] \<and> hd b = slash then b
      else if a = [] \<or> last a = slash then a @ b
      else a @ [slash] @ b)"

text \<open>\<^verbatim>\<open>p[:p.rfind('/') + 1]\<close>: the part of \<open>p\<close> up to and including its last slash.\<close>

definition path_head :: "string \<Rightarrow> string" where
  "path_head p = rev (dropWhile (\<lambda>c. c \<noteq> slash) (rev p))"

definition os_path_basename :: "string \<Rightarrow> string" where
  "os_path_basename p = rev (takeWhile (\<lambda>c. c \<noteq> slash) (rev p))"

definition rstrip_slash :: "string \<Rightarrow> string" where
  "rstrip_slash s = rev (dropWhile (\<lambda>c. c = slash) (rev s))"

definition os_path_dirname :: "string \<Rightarrow> string" where
  "os_path_dirname p =
     (let h = path_head p
      in if h \<noteq> [] \<and> h \<noteq> replicate (length h) slash then rstrip_slash h else h)"

subsection \<open>The plugin record\<close>

record plugin =
  plugin_id :: string
  plugin_name :: string
  description :: string
  plugin_path :: string
  manual :: string
  desktopFile :: string
  isActive :: bool
  isValid :: bool

definition defaultValues :: plugin where
  "defaultValues =
     \<lparr>plugin_id = [], plugin_name = [], description = [], plugin_path = [], manual = [],
      desktopFile = [], isActive = False, isValid = False\<rparr>"

text \<open>
  An argument of a public method as Python sees it: the methods test
  \<^verbatim>\<open>isinstance(x, str)\<close>, \<^verbatim>\<open>isinstance(x, Plugin)\<close> and \<^verbatim>\<open>x is None\<close> themselves.
\<close>

datatype pyval =
    PyNone
  | PyStr string
  | PyInt int
  | PyPlugin plugin

text \<open>\<open>Plugin.ACTION_VALIDATE_ASK\<close>, \<open>_YES\<close> and \<open>_NO\<close>.\<close>

definition ACTION_VALIDATE_ASK :: int where
  "ACTION_VALIDATE_ASK = 0"

definition ACTION_VALIDATE_YES :: int where
  "ACTION_VALIDATE_YES = 1"

definition ACTION_VALIDATE_NO :: int where
  "ACTION_VALIDATE_NO = 2"

subsection \<open>The world: settings store, module table, host objects, filesystem\<close>

text \<open>
  A module of \<open>sys.modules\<close> as \<open>deactivate\<close> looks at it: whether \<open>__file__\<close> is in
  its \<open>__dict__\<close>, and whether it is a str.
\<close>

datatype file_attr = NoFile | NonStrFile | StrFile string

text \<open>
  An action of the host: its object name, its \<open>menulocation\<close> property (\<open>None\<close> when
  the property is not set) and the menu it opens, a widget of the store below.
\<close>

record action =
  objectName :: string
  menulocation :: "string option"
  menu :: "nat option"

text \<open>
  A live extension object: the file that defines its class, and whether \<open>setup\<close> and
  \<open>createActions\<close> are callable attributes of it.
\<close>

record extension =
  ext_ident :: nat
  ext_file :: string
  has_setup :: bool
  has_createActions :: bool

record 'f world =
  settings :: "(string \<times> string) \<rightharpoonup> string"
  modules :: "(string \<times> file_attr) list"
  actions :: "action list"
  extensions :: "extension list"
  menuWidget :: "nat option"
  widgets :: "nat \<Rightarrow> action list"
  fs :: 'f

text \<open>
  The settings store of the host, as the code uses it:
  \<open>readSetting(group, key, default)\<close> and \<open>writeSetting(group, key, value)\<close>,
  where writing \<open>None\<close> removes the key.
\<close>

definition readSetting :: "'f world \<Rightarrow> string \<Rightarrow> string \<Rightarrow> string \<Rightarrow> string" where
  "readSetting w g k d = (case settings w (g, k) of None \<Rightarrow> d | Some v \<Rightarrow> v)"

definition writeSetting :: "string \<Rightarrow> string \<Rightarrow> string option \<Rightarrow> 'f world \<Rightarrow> 'f world" where
  "writeSetting g k v w = w\<lparr>settings := (settings w)((g, k) := v)\<rparr>"

definition enable_key :: "string \<Rightarrow> string" where
  "enable_key i = ''enable_'' @ i"

subsection \<open>The environment: libraries, operating system and plugin code\<close>

text \<open>
  A section of a parsed manifest, as \<open>SectionProxy.get\<close> answers for an option: no
  answer when the option is absent (the caller's fallback is returned), a string, or
  an exception of the library (a value that cannot be interpolated). A configuration
  maps the names of its sections to them.
\<close>

type_synonym cfgsection = "string \<rightharpoonup> (exn + string)"
type_synonym config = "string \<rightharpoonup> cfgsection"

text \<open>An entry of an archive: its file name and its bytes.\<close>

type_synonym zipentry = "string \<times> string"

record 'f env =
  appDataLocation :: string
  os_path_exists :: "'f \<Rightarrow> string \<Rightarrow> bool"
  os_path_isfile :: "'f \<Rightarrow> string \<Rightarrow> bool"
  os_mkdir :: "'f \<Rightarrow> string \<Rightarrow> exn option \<times> 'f"
  os_remove :: "'f \<Rightarrow> string \<Rightarrow> exn option \<times> 'f"
  shutil_rmtree :: "'f \<Rightarrow> string \<Rightarrow> 'f"
  os_scandir :: "'f \<Rightarrow> string \<Rightarrow> exn + string list"
  cfg_read :: "'f \<Rightarrow> string \<Rightarrow> exn + config"
  cfg_read_string :: "string \<Rightarrow> exn + config"
  zip_open :: "'f \<Rightarrow> string \<Rightarrow> exn + zipentry list"
  zip_extract :: "'f \<Rightarrow> zipentry \<Rightarrow> string \<Rightarrow> exn option \<times> 'f"
  load_module :: "string \<Rightarrow> 'f world \<Rightarrow> exn option \<times> 'f world"
  run_setup :: "extension \<Rightarrow> 'f world \<Rightarrow> exn option \<times> 'f world"
  run_createActions :: "extension \<Rightarrow> 'f world \<Rightarrow> exn option \<times> 'f world"

subsection \<open>\<open>Plugins.path\<close> and the manifest loader\<close>

text \<open>
  \<open>Plugins.path()\<close>. When the directory does not exist the code runs
  \<^verbatim>\<open>os.mkdir(dest)\<close>, and \<open>dest\<close> is not a name of that scope: NameError.
\<close>

definition Plugins_path :: "'f env \<Rightarrow> 'f world \<Rightarrow> exn + string" where
  "Plugins_path env w =
     (let returned = os_path_join (appDataLocation env) ''pykrita''
      in if \<not> os_path_exists env (fs w) returned then Inl NameError else Inr returned)"

definition actions_path :: "'f env \<Rightarrow> string" where
  "actions_path env = os_path_join (appDataLocation env) ''actions''"

text \<open>\<^verbatim>\<open>settings.get(key, '')\<close>.\<close>

definition settings_get :: "cfgsection \<Rightarrow> string \<Rightarrow> exn + string" where
  "settings_get s k = (case s k of None \<Rightarrow> Inr [] | Some r \<Rightarrow> r)"

text \<open>
  \<open>Plugin.__loadFromcfgParser\<close>. The fields are assigned one after the other, so an
  exception leaves those assigned before it. The library hands every value out as a
  str, so neither \<^verbatim>\<open>isinstance(..., list)\<close> test holds and the joins after them do not
  run.
\<close>

definition loadFromcfgParser ::
  "'f env \<Rightarrow> 'f world \<Rightarrow> plugin \<Rightarrow> config \<Rightarrow> (exn + unit) \<times> plugin" where
  "loadFromcfgParser env w p cfgParser =
     (case cfgParser ''Desktop Entry'' of
        None \<Rightarrow> (Inl KeyError, p)
      | Some sec \<Rightarrow>
     (case settings_get sec ''X-KDE-Library'' of
        Inl e \<Rightarrow> (Inl e, p)
      | Inr i \<Rightarrow> let p1 = p\<lparr>plugin_id := i\<rparr> in
     (case settings_get sec ''Name'' of
        Inl e \<Rightarrow> (Inl e, p1)
      | Inr n \<Rightarrow> let p2 = p1\<lparr>plugin_name := n\<rparr> in
     (case settings_get sec ''Comment'' of
        Inl e \<Rightarrow> (Inl e, p2)
      | Inr c \<Rightarrow> let p3 = p2\<lparr>description := c\<rparr> in
     (case Plugins_path env w of
        Inl e \<Rightarrow> (Inl e, p3)
      | Inr root \<Rightarrow> let p4 = p3\<lparr>plugin_path := os_path_join root i\<rparr> in
     (case settings_get sec ''X-Krita-Manual'' of
        Inl e \<Rightarrow> (Inl e, p4)
      | Inr m \<Rightarrow>
          let p5 = p4\<lparr>manual := (if m \<noteq> [] then os_path_join (plugin_path p4) m else m)\<rparr>;
              p6 = p5\<lparr>isValid := True\<rparr>
          in (Inr (),
              p6\<lparr>isActive := (readSetting w ''python'' (enable_key i) ''false'' = ''true'')\<rparr>)))))))"

text \<open>\<open>Plugin.loadFromDesktopContent\<close>.\<close>

definition loadFromDesktopContent ::
  "'f env \<Rightarrow> 'f world \<Rightarrow> plugin \<Rightarrow> pyval \<Rightarrow> (exn + unit) \<times> plugin" where
  "loadFromDesktopContent env w p desktopContent =
     (case desktopContent of
        PyNone \<Rightarrow> (Inr (), defaultValues)
      | PyStr s \<Rightarrow>
          if s = [] then (Inr (), defaultValues)
          else (case cfg_read_string env s of
                  Inl e \<Rightarrow> (Inl e, defaultValues)
                | Inr cfgParser \<Rightarrow>
                    (case loadFromcfgParser env w defaultValues cfgParser of
                       (Inl e, p1) \<Rightarrow> (Inl e, p1)
                     | (Inr u, p1) \<Rightarrow>
                         (case Plugins_path env w of
                            Inl e \<Rightarrow> (Inl e, p1)
                          | Inr root \<Rightarrow>
                              (Inr (),
                               p1\<lparr>desktopFile :=
                                     os_path_join root (plugin_id p1 @ ''.desktop'')\<rparr>))))
      | PyInt n \<Rightarrow> (Inl EInvalidType, defaultValues)
      | PyPlugin q \<Rightarrow> (Inl EInvalidType, defaultValues))"

text \<open>\<open>Plugin.loadFromDesktopFile\<close>; \<open>configParser.read\<close> is the library's.\<close>

definition loadFromDesktopFile ::
  "'f env \<Rightarrow> 'f world \<Rightarrow> plugin \<Rightarrow> pyval \<Rightarrow> (exn + unit) \<times> plugin" where
  "loadFromDesktopFile env w p desktopFileName =
     (case desktopFileName of
        PyNone \<Rightarrow> (Inr (), defaultValues)
      | PyStr s \<Rightarrow>
          if os_path_isfile env (fs w) s then
            if re_search_end ''.desktop'' s then
              (let p1 = defaultValues\<lparr>desktopFile := s\<rparr>
               in case cfg_read env (fs w) s of
                    Inl e \<Rightarrow> (Inl e, p1)
                  | Inr cfgParser \<Rightarrow> loadFromcfgParser env w p1 cfgParser)
            else (Inl EInvalidValue, defaultValues\<lparr>isValid := False, isActive := False\<rparr>)
          else (Inl EInvalidValue, defaultValues\<lparr>isValid := False, isActive := False\<rparr>)
      | PyInt n \<Rightarrow> (Inl EInvalidType, defaultValues)
      | PyPlugin q \<Rightarrow> (Inl EInvalidType, defaultValues))"

text \<open>
  \<open>Plugin(desktopFileName)\<close>: \<open>__init__\<close> sets the defaults and loads the file; when it
  raises there is no object.
\<close>

definition Plugin_new :: "'f env \<Rightarrow> 'f world \<Rightarrow> pyval \<Rightarrow> exn + plugin" where
  "Plugin_new env w desktopFileName =
     (case loadFromDesktopFile env w defaultValues desktopFileName of
        (Inl e, p) \<Rightarrow> Inl e
      | (Inr u, p) \<Rightarrow> Inr p)"

subsection \<open>\<open>Plugin.deactivate\<close>\<close>

text \<open>
  The test of the loop of \<open>deactivate\<close>: \<open>__file__\<close> is in the module's \<open>__dict__\<close>,
  is a str, and its \<open>dirname\<close> is the plugin's path.
\<close>

definition module_in_path :: "file_attr \<Rightarrow> string \<Rightarrow> bool" where
  "module_in_path m path =
     (case m of NoFile \<Rightarrow> False | NonStrFile \<Rightarrow> False | StrFile f \<Rightarrow> os_path_dirname f = path)"

text \<open>
  The loop over the names \<open>sys.modules\<close> had when it started; \<open>sys.modules[name]\<close>
  raises KeyError for a name that is no longer a key.
\<close>

fun unload_modules ::
  "string \<Rightarrow> string list \<Rightarrow> (string \<times> file_attr) list \<Rightarrow> exn option \<times> (string \<times> file_attr) list" where
  "unload_modules path [] ms = (None, ms)"
| "unload_modules path (moduleName # rest) ms =
     (case map_of ms moduleName of
        None \<Rightarrow> (Some KeyError, ms)
      | Some m \<Rightarrow>
          if module_in_path m path then unload_modules path rest (AList.delete moduleName ms)
          else unload_modules path rest ms)"

definition deactivate :: "plugin \<Rightarrow> 'f world \<Rightarrow> (exn + unit) \<times> plugin \<times> 'f world" where
  "deactivate p w =
     (if \<not> isActive p then (Inr (), p, w)
      else
        let p1 = p\<lparr>isActive := False\<rparr>;
            w1 = writeSetting ''python'' (enable_key (plugin_id p1)) (Some ''false'') w;
            moduleNames = map fst (modules w1)
        in case unload_modules (plugin_path p1) moduleNames (modules w1) of
             (Some e, ms) \<Rightarrow> (Inl e, p1, w1\<lparr>modules := ms\<rparr>)
           | (None, ms) \<Rightarrow> (Inr (), p1, w1\<lparr>modules := ms\<rparr>))"

subsection \<open>\<open>Plugin.activate\<close>\<close>

text \<open>
  The source also calls \<open>importlib.util.spec_from_file_location\<close> before it loads
  the script; the value is not used, and the call is not part of the model.
\<close>

text \<open>\<^verbatim>\<open>s.split(c)\<close>.\<close>

fun str_split :: "char \<Rightarrow> string \<Rightarrow> string list" where
  "str_split c [] = [[]]"
| "str_split c (x # xs) =
     (if x = c then [] # str_split c xs
      else (case str_split c xs of [] \<Rightarrow> [[x]] | y # ys \<Rightarrow> (x # y) # ys))"

text \<open>
  \<open>Plugin.__getMenuLocation\<close> on the list \<open>idList\<close> of the segments of \<open>location\<close>.
  The recursive call of the source joins \<open>idList[1:]\<close> with slashes and splits the
  result again, which gives \<open>idList[1:]\<close> back. A \<open>fromWidget\<close> that is \<open>None\<close> is
  replaced by the menu widget of the active window, at every level; the loop returns
  at the first action whose name is the first segment.
\<close>

fun getMenuLocation_ids :: "'f world \<Rightarrow> string list \<Rightarrow> nat option \<Rightarrow> nat option" where
  "getMenuLocation_ids w [] fromWidget = None"
| "getMenuLocation_ids w (i # rest) fromWidget =
     (case (case fromWidget of None \<Rightarrow> menuWidget w | Some m \<Rightarrow> Some m) of
        None \<Rightarrow> None
      | Some m \<Rightarrow>
          (case find (\<lambda>a. objectName a = i) (widgets w m) of
             None \<Rightarrow> None
           | Some a \<Rightarrow> if rest = [] then menu a else getMenuLocation_ids w rest (menu a)))"

definition getMenuLocation :: "'f world \<Rightarrow> string \<Rightarrow> nat option" where
  "getMenuLocation w location = getMenuLocation_ids w (str_split slash location) None"

text \<open>\<open>menu.addAction(action)\<close>: a widget holds an action once.\<close>

definition addAction :: "nat \<Rightarrow> action \<Rightarrow> 'f world \<Rightarrow> 'f world" where
  "addAction m a w =
     w\<lparr>widgets := (widgets w)(m := (if a \<in> set (widgets w m) then widgets w m
                                     else widgets w m @ [a]))\<rparr>"

text \<open>
  The loop over \<open>Krita.instance().extensions()\<close>: \<open>setup\<close> and \<open>createActions\<close> are
  code of the plugin, and the actions whose names are not in \<open>actionsListId\<close> are
  collected after each \<open>createActions\<close>.
\<close>

fun scan_extensions ::
  "'f env \<Rightarrow> string \<Rightarrow> string list \<Rightarrow> extension list \<Rightarrow> action list \<Rightarrow> 'f world
     \<Rightarrow> (exn + action list) \<times> 'f world" where
  "scan_extensions env path actionsListId [] newActionsList w = (Inr newActionsList, w)"
| "scan_extensions env path actionsListId (x # xs) newActionsList w =
     (if os_path_dirname (ext_file x) = path then
        (case (if has_setup x then run_setup env x w else (None, w)) of
           (Some e, w1) \<Rightarrow> (Inl e, w1)
         | (None, w1) \<Rightarrow>
             if has_createActions x then
               (case run_createActions env x w1 of
                  (Some e, w2) \<Rightarrow> (Inl e, w2)
                | (None, w2) \<Rightarrow>
                    scan_extensions env path actionsListId xs
                      (newActionsList @
                         filter (\<lambda>a. objectName a \<notin> set actionsListId) (actions w2)) w2)
             else scan_extensions env path actionsListId xs newActionsList w1)
      else scan_extensions env path actionsListId xs newActionsList w)"

text \<open>The last loop of \<open>activate\<close>: the new actions are appended to their menus.\<close>

fun place_actions :: "action list \<Rightarrow> 'f world \<Rightarrow> 'f world" where
  "place_actions [] w = w"
| "place_actions (a # rest) w =
     (case menulocation a of
        None \<Rightarrow> place_actions rest w
      | Some location \<Rightarrow>
          (case getMenuLocation w location of
             None \<Rightarrow> place_actions rest w
           | Some m \<Rightarrow> place_actions rest (addAction m a w)))"

definition activate :: "'f env \<Rightarrow> plugin \<Rightarrow> 'f world \<Rightarrow> (exn + unit) \<times> plugin \<times> 'f world" where
  "activate env p w =
     (if isActive p then (Inr (), p, w)
      else
        let p1 = p\<lparr>isActive := True\<rparr>;
            w1 = writeSetting ''python'' (enable_key (plugin_id p1)) (Some ''true'') w;
            script = os_path_join (plugin_path p1) ''__init__.py''
        in case load_module env script w1 of
             (Some e, w2) \<Rightarrow> (Inl e, p1, w2)
           | (None, w2) \<Rightarrow>
               (let actionsListId = map objectName (actions w2)
                in case scan_extensions env (plugin_path p1) actionsListId (extensions w2) [] w2 of
                     (Inl e, w3) \<Rightarrow> (Inl e, p1, w3)
                   | (Inr newActionsList, w3) \<Rightarrow> (Inr (), p1, place_actions newActionsList w3)))"

subsection \<open>\<open>Plugin.uninstall\<close>\<close>

text \<open>
  \<open>confirmUninstall\<close> is \<open>None\<close> or one of the three constants; \<open>userChoice\<close> is the
  answer to the confirmation dialog (\<open>True\<close> for Yes), read only when the code asks.
\<close>

definition remove_if_exists :: "'f env \<Rightarrow> string \<Rightarrow> 'f \<Rightarrow> exn option \<times> 'f" where
  "remove_if_exists env file f =
     (if os_path_exists env f file then os_remove env f file else (None, f))"

definition uninstall ::
  "'f env \<Rightarrow> plugin \<Rightarrow> int option \<Rightarrow> bool \<Rightarrow> 'f world \<Rightarrow> (exn + bool) \<times> plugin \<times> 'f world" where
  "uninstall env p confirmUninstall userChoice w =
     (let c0 = (case confirmUninstall of None \<Rightarrow> ACTION_VALIDATE_ASK | Some c \<Rightarrow> c);
          c1 = (if c0 = ACTION_VALIDATE_ASK
                then (if userChoice then ACTION_VALIDATE_YES else ACTION_VALIDATE_NO)
                else c0)
      in if c1 = ACTION_VALIDATE_NO then (Inr False, p, w)
         else
           (case deactivate p w of
              (Inl e, p1, w1) \<Rightarrow> (Inl e, p1, w1)
            | (Inr u, p1, w1) \<Rightarrow>
                (let w2 = writeSetting ''python'' (enable_key (plugin_id p1)) None w1
                 in case remove_if_exists env (desktopFile p1) (fs w2) of
                      (Some e, f1) \<Rightarrow> (Inl e, p1, w2\<lparr>fs := f1\<rparr>)
                    | (None, f1) \<Rightarrow>
                        (let actionFile =
                               os_path_join (actions_path env) (plugin_id p1 @ ''.action'')
                         in case remove_if_exists env actionFile f1 of
                              (Some e, f2) \<Rightarrow> (Inl e, p1, w2\<lparr>fs := f2\<rparr>)
                            | (None, f2) \<Rightarrow>
                                (let f3 = (if os_path_exists env f2 (plugin_path p1)
                                           then shutil_rmtree env f2 (plugin_path p1)
                                           else f2)
                                 in (Inr True, defaultValues, w2\<lparr>fs := f3\<rparr>))))))"

subsection \<open>\<open>Plugin.install\<close>\<close>

text \<open>
  The body of the \<open>try\<close> of \<open>install\<close> in its four consecutive parts: the structural
  validation of the archive, which touches nothing; the decision on an install
  directory that exists, or its creation; the extraction loop; the activation.
\<close>

datatype validation =
    NoDesktopEntry
  | TooMuchDesktopEntry
  | NotValid
  | NoInitFile
  | Accepted plugin string string

text \<open>
  \<open>Accepted plugin desktopFileName initFileName\<close> is the state of the three variables
  when the code reaches \<^verbatim>\<open># Archive seems to be valid\<close>. \<open>archive.open(name)\<close> looks the
  name up among the entries, and \<open>decode\<close> leaves the bytes as they are.
\<close>

definition install_validate ::
  "'f env \<Rightarrow> 'f world \<Rightarrow> zipentry list \<Rightarrow> exn + validation" where
  "install_validate env w archive =
     (let desktopFile = filter (re_search_end ''.desktop'') (map fst archive)
      in if length desktopFile = 0 then Inr NoDesktopEntry
         else if length desktopFile > 1 then Inr TooMuchDesktopEntry
         else
           (let desktopFileName = hd desktopFile
            in case map_of archive desktopFileName of
                 None \<Rightarrow> Inl KeyError
               | Some content \<Rightarrow>
                   (case loadFromDesktopContent env w defaultValues (PyStr content) of
                      (Inl e, p) \<Rightarrow> Inl e
                    | (Inr u, p) \<Rightarrow>
                        if \<not> isValid p then Inr NotValid
                        else
                          (let initFileName = os_path_join (plugin_id p) ''__init__.py'';
                               initFile = filter (re_search_end initFileName) (map fst archive)
                           in if length initFile = 0 then Inr NoInitFile
                              else Inr (Accepted p desktopFileName (hd initFile))))))"

text \<open>
  The install directory: \<open>Inr False\<close> when the installation is cancelled, \<open>Inr True\<close>
  when it goes on.
\<close>

definition install_directory ::
  "'f env \<Rightarrow> plugin \<Rightarrow> int \<Rightarrow> bool \<Rightarrow> 'f world \<Rightarrow> (exn + bool) \<times> 'f world" where
  "install_directory env p overwrite userChoice w =
     (if os_path_exists env (fs w) (plugin_path p) then
        (let overwrite1 =
               (if overwrite = ACTION_VALIDATE_ASK
                then (if userChoice then ACTION_VALIDATE_YES else ACTION_VALIDATE_NO)
                else overwrite)
         in if overwrite1 = ACTION_VALIDATE_NO then (Inr False, w) else (Inr True, w))
      else
        (case os_mkdir env (fs w) (plugin_path p) of
           (Some e, f1) \<Rightarrow> (Inl e, w\<lparr>fs := f1\<rparr>)
         | (None, f1) \<Rightarrow> (Inr True, w\<lparr>fs := f1\<rparr>)))"

text \<open>
  The three branches of the extraction loop: where an entry goes and under which
  name, or \<open>None\<close> for an entry that no branch takes.
\<close>

datatype destination = InstallRoot | ActionsDirectory | PluginDirectory

definition extract_route ::
  "string \<Rightarrow> nat \<Rightarrow> nat \<Rightarrow> string \<Rightarrow> (destination \<times> string) option" where
  "extract_route pluginId rootPathLength initPathLength filename =
     (if os_path_basename filename = pluginId @ ''.desktop''
        then Some (InstallRoot, drop rootPathLength filename)
      else if os_path_basename filename = pluginId @ ''.action''
        then Some (ActionsDirectory, drop rootPathLength filename)
      else if length filename > initPathLength
        then Some (PluginDirectory, drop initPathLength filename)
      else None)"

definition path_length :: "string \<Rightarrow> nat" where
  "path_length fileName =
     (let n = length (os_path_dirname fileName) in if n > 0 then n + 1 else n)"

definition destination_path :: "'f env \<Rightarrow> 'f world \<Rightarrow> plugin \<Rightarrow> destination \<Rightarrow> exn + string" where
  "destination_path env w p d =
     (case d of
        InstallRoot \<Rightarrow> Plugins_path env w
      | ActionsDirectory \<Rightarrow> Inr (actions_path env)
      | PluginDirectory \<Rightarrow> Inr (plugin_path p))"

fun extract_files ::
  "'f env \<Rightarrow> plugin \<Rightarrow> nat \<Rightarrow> nat \<Rightarrow> zipentry list \<Rightarrow> 'f world \<Rightarrow> exn option \<times> 'f world" where
  "extract_files env p rootPathLength initPathLength [] w = (None, w)"
| "extract_files env p rootPathLength initPathLength (fileSrc # rest) w =
     (case extract_route (plugin_id p) rootPathLength initPathLength (fst fileSrc) of
        None \<Rightarrow> extract_files env p rootPathLength initPathLength rest w
      | Some (d, filename) \<Rightarrow>
          (case destination_path env w p d of
             Inl e \<Rightarrow> (Some e, w)
           | Inr target \<Rightarrow>
               (case zip_extract env (fs w) (filename, snd fileSrc) target of
                  (Some e, f1) \<Rightarrow> (Some e, w\<lparr>fs := f1\<rparr>)
                | (None, f1) \<Rightarrow>
                    extract_files env p rootPathLength initPathLength rest (w\<lparr>fs := f1\<rparr>))))"

definition install_try ::
  "'f env \<Rightarrow> string \<Rightarrow> int \<Rightarrow> bool \<Rightarrow> 'f world \<Rightarrow> (exn + plugin option) \<times> 'f world" where
  "install_try env zipFileName overwrite userChoice w =
     (case zip_open env (fs w) zipFileName of
        Inl e \<Rightarrow> (Inl e, w)
      | Inr archive \<Rightarrow>
          (case install_validate env w archive of
             Inl e \<Rightarrow> (Inl e, w)
           | Inr (Accepted p desktopFileName initFileName) \<Rightarrow>
               (case install_directory env p overwrite userChoice w of
                  (Inl e, w1) \<Rightarrow> (Inl e, w1)
                | (Inr False, w1) \<Rightarrow> (Inr None, w1)
                | (Inr True, w1) \<Rightarrow>
                    (case extract_files env p (path_length desktopFileName)
                            (path_length initFileName) archive w1 of
                       (Some e, w2) \<Rightarrow> (Inl e, w2)
                     | (None, w2) \<Rightarrow>
                         (case activate env p w2 of
                            (Inl e, p1, w3) \<Rightarrow> (Inl e, w3)
                          | (Inr u, p1, w3) \<Rightarrow> (Inr (Some p1), w3))))
           | Inr rejected \<Rightarrow> (Inr None, w)))"

text \<open>
  \<open>Plugin.install\<close>: the type test, the test that the file exists, and the \<open>try\<close>
  whose handler turns every exception into \<open>None\<close>.
\<close>

definition install ::
  "'f env \<Rightarrow> pyval \<Rightarrow> int option \<Rightarrow> bool \<Rightarrow> 'f world \<Rightarrow> (exn + plugin option) \<times> 'f world" where
  "install env zipFileName overwrite userChoice w =
     (let overwrite0 = (case overwrite of None \<Rightarrow> ACTION_VALIDATE_ASK | Some v \<Rightarrow> v)
      in case zipFileName of
           PyStr z \<Rightarrow>
             if \<not> os_path_isfile env (fs w) z then (Inr None, w)
             else (case install_try env z overwrite0 userChoice w of
                     (Inl e, w1) \<Rightarrow> (Inr None, w1)
                   | (Inr r, w1) \<Rightarrow> (Inr r, w1))
         | PyNone \<Rightarrow> (Inl EInvalidType, w)
         | PyInt n \<Rightarrow> (Inl EInvalidType, w)
         | PyPlugin q \<Rightarrow> (Inl EInvalidType, w))"

subsection \<open>The registry \<open>Plugins\<close>\<close>

text \<open>The dict \<open>__plugins\<close>, in insertion order.\<close>

type_synonym registry = "(string \<times> plugin) list"

definition append_plugin :: "plugin \<Rightarrow> registry \<Rightarrow> (exn + bool) \<times> registry" where
  "append_plugin p reg =
     (if plugin_id p \<noteq> [] then (Inr True, AList.update (plugin_id p) p reg)
      else (Inr False, reg))"

text \<open>\<open>Plugins.append\<close>; the bare \<open>except\<close> catches whatever \<open>Plugin(plugin)\<close> raises.\<close>

definition append ::
  "'f env \<Rightarrow> 'f world \<Rightarrow> registry \<Rightarrow> pyval \<Rightarrow> (exn + bool) \<times> registry" where
  "append env w reg plugin =
     (case plugin of
        PyStr s \<Rightarrow>
          (case Plugin_new env w (PyStr s) of
             Inl e \<Rightarrow> (Inr False, reg)
           | Inr p \<Rightarrow> append_plugin p reg)
      | PyPlugin p \<Rightarrow> append_plugin p reg
      | PyNone \<Rightarrow> (Inr False, reg)
      | PyInt n \<Rightarrow> (Inr False, reg))"

text \<open>\<open>Plugins.remove\<close> and \<open>Plugins.plugin\<close>.\<close>

definition remove :: "registry \<Rightarrow> pyval \<Rightarrow> (exn + unit) \<times> registry" where
  "remove reg ident =
     (case ident of
        PyStr s \<Rightarrow> (Inr (), if s \<in> fst ` set reg then AList.delete s reg else reg)
      | PyNone \<Rightarrow> (Inl EInvalidType, reg)
      | PyInt n \<Rightarrow> (Inl EInvalidType, reg)
      | PyPlugin q \<Rightarrow> (Inl EInvalidType, reg))"

definition get_plugin :: "registry \<Rightarrow> pyval \<Rightarrow> exn + plugin option" where
  "get_plugin reg ident =
     (case ident of
        PyStr s \<Rightarrow> Inr (map_of reg s)
      | PyNone \<Rightarrow> Inl EInvalidType
      | PyInt n \<Rightarrow> Inl EInvalidType
      | PyPlugin q \<Rightarrow> Inl EInvalidType)"

definition plugins :: "registry \<Rightarrow> plugin list" where
  "plugins reg = map snd reg"

text \<open>
  \<open>Plugins.__buildList\<close>: the loop over the names \<open>os.scandir\<close> gives, after the dict
  is emptied. \<open>Plugins.path()\<close> is evaluated for the scan and for every name.
\<close>

fun buildList_loop ::
  "'f env \<Rightarrow> 'f world \<Rightarrow> string list \<Rightarrow> registry \<Rightarrow> (exn + unit) \<times> registry" where
  "buildList_loop env w [] reg = (Inr (), reg)"
| "buildList_loop env w (name # rest) reg =
     (case Plugins_path env w of
        Inl e \<Rightarrow> (Inl e, reg)
      | Inr root \<Rightarrow>
          (let fullPathName = os_path_join root name
           in if re_search_end ''.desktop'' name
              then (case append env w reg (PyStr fullPathName) of
                      (Inl e, reg1) \<Rightarrow> (Inl e, reg1)
                    | (Inr b, reg1) \<Rightarrow> buildList_loop env w rest reg1)
              else buildList_loop env w rest reg))"

definition buildList :: "'f env \<Rightarrow> 'f world \<Rightarrow> (exn + unit) \<times> registry" where
  "buildList env w =
     (case Plugins_path env w of
        Inl e \<Rightarrow> (Inl e, [])
      | Inr root \<Rightarrow>
          (case os_scandir env (fs w) root of
             Inl e \<Rightarrow> (Inl e, [])
           | Inr files \<Rightarrow> buildList_loop env w files []))"

text \<open>\<open>Plugins.refresh\<close>: the registry before it is dropped.\<close>

definition refresh :: "'f env \<Rightarrow> 'f world \<Rightarrow> registry \<Rightarrow> (exn + unit) \<times> registry" where
  "refresh env w reg = buildList env w"

subsection \<open>A small concrete environment\<close>

text \<open>
  The theorems below hold for every environment. To run the model on examples, here
  is one: a filesystem that is a list of paths with their nodes, a reader of manifests
  made of section headers and \<open>key=value\<close> lines (no comment, no blank around the
  delimiter, no continuation line, no interpolation), archives kept as the list of
  their entries, and plugin code that registers the loaded script as \<open>__main__\<close> and
  does nothing else.
\<close>

datatype node = Dir | File string | Archive "zipentry list"

type_synonym demo_fs = "(string \<times> node) list"

definition is_delimiter :: "char \<Rightarrow> bool" where
  "is_delimiter c \<longleftrightarrow> c = CHR ''='' \<or> c = CHR '':''"

fun ini_lines ::
  "string list \<Rightarrow> (string \<times> (string \<times> string) list) list
     \<Rightarrow> exn + (string \<times> (string \<times> string) list) list" where
  "ini_lines [] acc = Inr acc"
| "ini_lines (l # ls) acc =
     (if l = [] then ini_lines ls acc
      else if hd l = CHR ''['' \<and> last l = CHR '']'' then
        (if butlast (tl l) \<in> fst ` set acc then Inl (LibraryError ''DuplicateSectionError'')
         else ini_lines ls ((butlast (tl l), []) # acc))
      else
        (case acc of
           [] \<Rightarrow> Inl (LibraryError ''MissingSectionHeaderError'')
         | (name, kvs) # acc1 \<Rightarrow>
             if \<not> list_ex is_delimiter l then Inl (LibraryError ''ParsingError'')
             else if takeWhile (\<lambda>c. \<not> is_delimiter c) l \<in> fst ` set kvs
               then Inl (LibraryError ''DuplicateOptionError'')
             else ini_lines ls
                    ((name, kvs @ [(takeWhile (\<lambda>c. \<not> is_delimiter c) l,
                                    tl (dropWhile (\<lambda>c. \<not> is_delimiter c) l))]) # acc1)))"

definition ini_config :: "(string \<times> (string \<times> string) list) list \<Rightarrow> config" where
  "ini_config secs = (\<lambda>s. map_option (\<lambda>kvs k. map_option Inr (map_of kvs k)) (map_of secs s))"

definition ini_read_string :: "string \<Rightarrow> exn + config" where
  "ini_read_string s =
     (case ini_lines (str_split newline s) [] of
        Inl e \<Rightarrow> Inl e
      | Inr secs \<Rightarrow> Inr (ini_config secs))"

definition demo_env :: "demo_fs env" where
  "demo_env =
     \<lparr>appDataLocation = ''/data'',
      os_path_exists = (\<lambda>f p. map_of f p \<noteq> None),
      os_path_isfile = (\<lambda>f p. map_of f p \<noteq> None \<and> map_of f p \<noteq> Some Dir),
      os_mkdir = (\<lambda>f p. if map_of f p \<noteq> None then (Some (LibraryError ''FileExistsError''), f)
                          else (None, f @ [(p, Dir)])),
      os_remove = (\<lambda>f p. if map_of f p \<noteq> None \<and> map_of f p \<noteq> Some Dir
                           then (None, AList.delete p f)
                           else (Some (LibraryError ''FileNotFoundError''), f)),
      shutil_rmtree = (\<lambda>f p. filter (\<lambda>x. fst x \<noteq> p \<and> \<not> prefix (p @ [slash]) (fst x)) f),
      os_scandir = (\<lambda>f p. if map_of f p = Some Dir
                            then Inr (map (os_path_basename \<circ> fst)
                                        (filter (\<lambda>x. fst x \<noteq> p \<and> os_path_dirname (fst x) = p) f))
                            else Inl (LibraryError ''NotADirectoryError'')),
      cfg_read = (\<lambda>f p. case map_of f p of Some (File c) \<Rightarrow> ini_read_string c
                                           | _ \<Rightarrow> Inr Map.empty),
      cfg_read_string = ini_read_string,
      zip_open = (\<lambda>f p. case map_of f p of Some (Archive es) \<Rightarrow> Inr es
                                           | _ \<Rightarrow> Inl (LibraryError ''BadZipFile'')),
      zip_extract = (\<lambda>f e target. (None, AList.update (os_path_join target (fst e)) (File (snd e)) f)),
      load_module = (\<lambda>script w.
         if map_of (fs w) script \<noteq> None \<and> map_of (fs w) script \<noteq> Some Dir
         then (None, w\<lparr>modules := AList.update ''__main__'' (StrFile script) (modules w)\<rparr>)
         else (Some (LibraryError ''FileNotFoundError''), w)),
      run_setup = (\<lambda>x w. (None, w)),
      run_createActions = (\<lambda>x w. (None, w))\<rparr>"

definition demo_world :: "demo_fs \<Rightarrow> demo_fs world" where
  "demo_world f =
     \<lparr>settings = Map.empty, modules = [], actions = [], extensions = [],
      menuWidget = None, widgets = (\<lambda>m. []), fs = f\<rparr>"

text \<open>Manifests: one for the id \<open>baz\<close>, one for \<open>foo\<close>, one without the id key.\<close>

definition manifest_baz :: string where
  "manifest_baz = ''[Desktop Entry]\<newline>X-KDE-Library=baz\<newline>Name=Baz''"

definition manifest_foo :: string where
  "manifest_foo = ''[Desktop Entry]\<newline>X-KDE-Library=foo\<newline>Name=Foo''"

definition manifest_noid :: string where
  "manifest_noid = ''[Desktop Entry]\<newline>Name=Broken''"

definition manifest_nosection :: string where
  "manifest_nosection = ''[Other]\<newline>X-KDE-Library=foo''"

definition plugin_baz :: plugin where
  "plugin_baz =
     \<lparr>plugin_id = ''baz'', plugin_name = ''Baz'', description = [],
      plugin_path = ''/data/pykrita/baz'', manual = [],
      desktopFile = ''/data/pykrita/baz.desktop'', isActive = False, isValid = True\<rparr>"

text \<open>Worlds: the install root alone; three loaded modules; two manifests in the root.\<close>

definition world_pykrita :: "demo_fs world" where
  "world_pykrita = demo_world [(''/data'', Dir), (''/data/pykrita'', Dir)]"

definition world_two_modules :: "demo_fs world" where
  "world_two_modules =
     (demo_world [])\<lparr>modules :=
        [(''baz'', StrFile ''/data/pykrita/baz/__init__.py''),
         (''baz.sub.mod'', StrFile ''/data/pykrita/baz/sub/mod.py''),
         (''os'', StrFile ''/usr/lib/python3/os.py'')]\<rparr>"

definition world_manifests :: "demo_fs world" where
  "world_manifests =
     demo_world [(''/data'', Dir), (''/data/pykrita'', Dir),
                 (''/data/pykrita/a.desktop'', File manifest_foo),
                 (''/data/pykrita/b.desktop'', File manifest_noid)]"

text \<open>
  Archives: a plugin \<open>baz\<close> with a file beside its directory, one with two manifests,
  one without entry module; and the world that holds an archive.
\<close>

definition archive_baz :: "zipentry list" where
  "archive_baz =
     [(''baz.desktop'', manifest_baz), (''baz/__init__.py'', ''import krita''),
      (''baz/helper.py'', ''x = 1''), (''README.txt'', ''hello'')]"

definition archive_two_manifests :: "zipentry list" where
  "archive_two_manifests =
     [(''baz.desktop'', manifest_baz), (''foo.desktop'', manifest_foo),
      (''baz/__init__.py'', ''import krita'')]"

definition archive_no_init :: "zipentry list" where
  "archive_no_init = [(''baz.desktop'', manifest_baz), (''baz/helper.py'', ''x = 1'')]"

definition world_zip :: "zipentry list \<Rightarrow> demo_fs world" where
  "world_zip archive =
     demo_world [(''/data'', Dir), (''/data/pykrita'', Dir),
                 (''/tmp/plugin.zip'', Archive archive)]"


text \<open>
  The filesystem after \<open>archive_baz\<close> is installed, the world before it when the
  settings store already enables \<open>baz\<close>, and the world after a first installation.
\<close>

definition fs_installed :: demo_fs where
  "fs_installed =
     [(''/data'', Dir), (''/data/pykrita'', Dir), (''/tmp/plugin.zip'', Archive archive_baz),
      (''/data/pykrita/baz'', Dir),
      (''/data/pykrita/baz.desktop'', File manifest_baz),
      (''/data/pykrita/baz/__init__.py'', File ''import krita''),
      (''/data/pykrita/baz/helper.py'', File ''x = 1''),
      (''/data/pykrita/baz/ME.txt'', File ''hello'')]"

definition world_enabled :: "demo_fs world" where
  "world_enabled = (world_zip archive_baz)\<lparr>settings := [(''python'', ''enable_baz'') \<mapsto> ''true'']\<rparr>"

definition world_installed :: "demo_fs world" where
  "world_installed =
     (world_zip archive_baz)
       \<lparr>settings := [(''python'', ''enable_baz'') \<mapsto> ''true''],
        modules := [(''__main__'', StrFile ''/data/pykrita/baz/__init__.py'')],
        fs := fs_installed\<rparr>"







subsection \<open>Predicates used in the statements\<close>


text \<open>
  A manifest file that gives no plugin: the library cannot read it, or it has no
  \<open>[Desktop Entry]\<close> section, or the section has no \<open>X-KDE-Library\<close> key.
\<close>

definition corrupt_manifest :: "'f env \<Rightarrow> 'f world \<Rightarrow> string \<Rightarrow> bool" where
  "corrupt_manifest env w file \<longleftrightarrow>
     (case cfg_read env (fs w) file of
        Inl e \<Rightarrow> True
      | Inr cfg \<Rightarrow>
          (case cfg ''Desktop Entry'' of
             None \<Rightarrow> True
           | Some sec \<Rightarrow> sec ''X-KDE-Library'' = None))"

section \<open>Properties\<close>

subsection \<open>Activation and deactivation\<close>




lemma activate_sets_active: "\<not> isActive p \<Longrightarrow> isActive (fst (snd (activate env p w)))"
  by (simp add: activate_def Let_def split: prod.splits option.splits sum.splits)

lemma activate_result_active: "fst (activate env p w) = Inr u \<Longrightarrow> isActive (fst (snd (activate env p w)))"
  by (cases "isActive p") (simp_all add: activate_sets_active, simp add: activate_def)


text \<open>
  C8. Activating a record that is active and deactivating a record that is inactive
  change nothing: the method returns at once, with the record and the whole world
  (settings store, module table, host objects, filesystem) as they were, so no module
  is loaded or unloaded.
\<close>

theorem activate_deactivate_noop:
  "(isActive p \<longrightarrow> activate env p w = (Inr (), p, w)) \<and>
   (\<not> isActive p \<longrightarrow> deactivate p w = (Inr (), p, w))"
  by (simp add: activate_def deactivate_def)

theorem activate_deactivate_noop_witness:
  "isActive (plugin_baz\<lparr>isActive := True\<rparr>) \<and>
   activate demo_env (plugin_baz\<lparr>isActive := True\<rparr>) (demo_world [])
     = (Inr (), plugin_baz\<lparr>isActive := True\<rparr>, demo_world []) \<and>
   \<not> isActive plugin_baz \<and>
   deactivate plugin_baz (demo_world []) = (Inr (), plugin_baz, demo_world [])"
  using activate_deactivate_noop [of "plugin_baz\<lparr>isActive := True\<rparr>" demo_env "demo_world []"]
    activate_deactivate_noop [of plugin_baz demo_env "demo_world []"]
  by (simp add: plugin_baz_def)














subsection \<open>Uninstallation\<close>

text \<open>
  C9. An uninstallation that is not confirmed (the decision is \<open>ACTION_VALIDATE_NO\<close>,
  or the code asks and the answer is No) returns \<open>False\<close> without raising, and the
  record, the settings store and the filesystem are unchanged.
\<close>

theorem uninstall_abort:
  "uninstall env p (Some ACTION_VALIDATE_NO) userChoice w = (Inr False, p, w) \<and>
   uninstall env p (Some ACTION_VALIDATE_ASK) False w = (Inr False, p, w) \<and>
   uninstall env p None False w = (Inr False, p, w)"
  by (simp add: uninstall_def ACTION_VALIDATE_NO_def ACTION_VALIDATE_ASK_def ACTION_VALIDATE_YES_def)

theorem uninstall_abort_witness:
  "uninstall demo_env plugin_baz (Some 2) True (demo_world []) = (Inr False, plugin_baz, demo_world [])"
  using uninstall_abort [of demo_env plugin_baz True "demo_world []"]
  by (simp add: ACTION_VALIDATE_NO_def)

subsection \<open>Deactivation\<close>

lemma map_of_distinct_snd:
  "distinct (map fst ms) \<Longrightarrow> x \<in> set ms \<Longrightarrow> map_of ms (fst x) = Some (snd x)"
  by (cases x) simp

lemma unload_modules_filter:
  "distinct ns \<Longrightarrow> set ns \<subseteq> fst ` set ms \<Longrightarrow> distinct (map fst ms) \<Longrightarrow>
   unload_modules path ns ms
     = (None, filter (\<lambda>x. \<not> (fst x \<in> set ns \<and> module_in_path (snd x) path)) ms)"
proof (induction ns arbitrary: ms)
  case Nil
  then show ?case by simp
next
  case (Cons n rest)
  from Cons.prems obtain m where m: "map_of ms n = Some m"
    by (metis list.set_intros(1) map_of_eq_None_iff not_Some_eq subsetD)
  have same: "\<And>x. x \<in> set ms \<Longrightarrow> fst x = n \<Longrightarrow> snd x = m"
    using map_of_distinct_snd[OF Cons.prems(3)] m by fastforce
  show ?case
  proof (cases "module_in_path m path")
    case True
    have d: "distinct rest" and nr: "n \<notin> set rest"
      using Cons.prems(1) by simp_all
    have sub: "set rest \<subseteq> fst ` set (AList.delete n ms)"
    proof -
      have "set (map fst (AList.delete n ms)) = set (map fst ms) - {n}"
        by (simp add: AList.delete_keys)
      then have "fst ` set (AList.delete n ms) = fst ` set ms - {n}"
        by simp
      then show ?thesis
        using Cons.prems(2) nr by auto
    qed
    have dd: "distinct (map fst (AList.delete n ms))"
      by (rule AList.distinct_delete[OF Cons.prems(3)])
    have "unload_modules path (n # rest) ms = unload_modules path rest (AList.delete n ms)"
      using m True by simp
    also have "\<dots> = (None, filter (\<lambda>x. \<not> (fst x \<in> set rest \<and> module_in_path (snd x) path))
                          (AList.delete n ms))"
      by (rule Cons.IH[OF d sub dd])
    also have "filter (\<lambda>x. \<not> (fst x \<in> set rest \<and> module_in_path (snd x) path)) (AList.delete n ms)
               = filter (\<lambda>x. \<not> (fst x \<in> set (n # rest) \<and> module_in_path (snd x) path)) ms"
      unfolding AList.delete_eq filter_filter
      by (rule filter_cong) (use same True in \<open>auto simp: case_prod_beta\<close>)
    finally show ?thesis .
  next
    case False
    have d: "distinct rest" using Cons.prems(1) by simp
    have sub: "set rest \<subseteq> fst ` set ms" using Cons.prems(2) by simp
    have "unload_modules path (n # rest) ms = unload_modules path rest ms"
      using m False by simp
    also have "\<dots> = (None, filter (\<lambda>x. \<not> (fst x \<in> set rest \<and> module_in_path (snd x) path)) ms)"
      by (rule Cons.IH[OF d sub Cons.prems(3)])
    also have "filter (\<lambda>x. \<not> (fst x \<in> set rest \<and> module_in_path (snd x) path)) ms
               = filter (\<lambda>x. \<not> (fst x \<in> set (n # rest) \<and> module_in_path (snd x) path)) ms"
      by (rule filter_cong) (use same False in auto)
    finally show ?thesis .
  qed
qed

lemma unload_modules_all:
  assumes "distinct (map fst ms)"
  shows "unload_modules path (map fst ms) ms
           = (None, filter (\<lambda>x. \<not> module_in_path (snd x) path) ms)"
proof -
  have "unload_modules path (map fst ms) ms
          = (None, filter (\<lambda>x. \<not> (fst x \<in> set (map fst ms) \<and> module_in_path (snd x) path)) ms)"
    by (rule unload_modules_filter) (use assms in auto)
  also have "filter (\<lambda>x. \<not> (fst x \<in> set (map fst ms) \<and> module_in_path (snd x) path)) ms
             = filter (\<lambda>x. \<not> module_in_path (snd x) path) ms"
    by (rule filter_cong) auto
  finally show ?thesis .
qed
lemma dirnames:
  "os_path_dirname ''/data/pykrita/baz/__init__.py'' = ''/data/pykrita/baz''"
  "os_path_dirname ''/data/pykrita/baz/sub/mod.py'' = ''/data/pykrita/baz/sub''"
  "os_path_dirname ''/usr/lib/python3/os.py'' = ''/usr/lib/python3''"
  by (simp_all add: os_path_dirname_def path_head_def rstrip_slash_def slash_def)

text \<open>
  C5, as the code has it. Deactivating an active record writes the disabled sentinel
  and removes from the module table every module whose \<open>__file__\<close> is a str with
  \<open>dirname\<close> equal to the plugin's path: the modules whose file is directly in the
  install directory. The other modules stay, those of its subdirectories among them.
\<close>

theorem deactivate_unloads:
  assumes "isActive p" and "distinct (map fst (modules w))"
  shows "deactivate p w =
           (Inr (), p\<lparr>isActive := False\<rparr>,
            w\<lparr>settings := (settings w)((''python'', enable_key (plugin_id p)) \<mapsto> ''false''),
              modules := filter (\<lambda>x. \<not> module_in_path (snd x) (plugin_path p)) (modules w)\<rparr>)"
  using assms unload_modules_all[OF assms(2), of "plugin_path p"]
  by (simp add: deactivate_def writeSetting_def)

theorem deactivate_unloads_witness:
  "isActive (plugin_baz\<lparr>isActive := True\<rparr>) \<and>
   distinct (map fst (modules world_two_modules)) \<and>
   deactivate (plugin_baz\<lparr>isActive := True\<rparr>) world_two_modules =
     (Inr (), plugin_baz,
      world_two_modules\<lparr>settings := [(''python'', ''enable_baz'') \<mapsto> ''false''],
        modules := [(''baz.sub.mod'', StrFile ''/data/pykrita/baz/sub/mod.py''),
                    (''os'', StrFile ''/usr/lib/python3/os.py'')]\<rparr>)"
  using deactivate_unloads [of "plugin_baz\<lparr>isActive := True\<rparr>" world_two_modules]
  by (simp add: world_two_modules_def plugin_baz_def demo_world_def enable_key_def
      module_in_path_def dirnames)

text \<open>
  C5 as stated fails: a module whose file is in a subdirectory of the install
  directory is still in the module table after \<open>deactivate\<close>.
\<close>

theorem deactivate_subdirectory_counterexample:
  "isActive (plugin_baz\<lparr>isActive := True\<rparr>) \<and>
   map_of (modules world_two_modules) ''baz.sub.mod'' = Some (StrFile ''/data/pykrita/baz/sub/mod.py'') \<and>
   prefix (plugin_path plugin_baz @ ''/'') ''/data/pykrita/baz/sub/mod.py'' \<and>
   modules (snd (snd (deactivate (plugin_baz\<lparr>isActive := True\<rparr>) world_two_modules)))
     = [(''baz.sub.mod'', StrFile ''/data/pykrita/baz/sub/mod.py''),
        (''os'', StrFile ''/usr/lib/python3/os.py'')]"
  by (simp add: deactivate_def world_two_modules_def plugin_baz_def demo_world_def writeSetting_def
      module_in_path_def dirnames)

subsection \<open>Parsing a manifest\<close>

lemma loadFromcfgParser_valid:
  "isValid (snd (loadFromcfgParser env w p cfg)) \<longleftrightarrow> fst (loadFromcfgParser env w p cfg) = Inr () \<or> isValid p"
  by (simp add: loadFromcfgParser_def Let_def split: option.splits sum.splits)

lemma not_valid_defaultValues: "\<not> isValid defaultValues"
  by (simp add: defaultValues_def)

lemma loadFromDesktopContent_valid:
  "isValid (snd (loadFromDesktopContent env w p c))
     \<longleftrightarrow> (\<exists>s. c = PyStr s \<and> s \<noteq> []) \<and> fst (loadFromDesktopContent env w p c) = Inr ()"
proof (cases c)
  case (PyStr s)
  show ?thesis
  proof (cases "s = []")
    case True
    then show ?thesis using PyStr by (simp add: loadFromDesktopContent_def not_valid_defaultValues)
  next
    case False
    show ?thesis
    proof (cases "cfg_read_string env s")
      case (Inl e)
      then show ?thesis using PyStr False
        by (simp add: loadFromDesktopContent_def not_valid_defaultValues)
    next
      case (Inr cfg)
      obtain r p1 where l: "loadFromcfgParser env w defaultValues cfg = (r, p1)"
        by (cases "loadFromcfgParser env w defaultValues cfg")
      have v: "isValid p1 \<longleftrightarrow> r = Inr ()"
        using loadFromcfgParser_valid[of env w defaultValues cfg] l
        by (simp add: not_valid_defaultValues)
      show ?thesis
      proof (cases r)
        case (Inl e)
        then show ?thesis using PyStr False Inr l v
          by (simp add: loadFromDesktopContent_def)
      next
        case r: (Inr u)
        have root: "\<exists>root. Plugins_path env w = Inr root"
          using l r by (auto simp: loadFromcfgParser_def Let_def split: option.splits sum.splits)
        then show ?thesis using PyStr False Inr l v r
          by (auto simp: loadFromDesktopContent_def)
      qed
    qed
  qed
qed (simp_all add: loadFromDesktopContent_def not_valid_defaultValues)
lemma split_manifest_noid:
  "ini_lines (str_split newline manifest_noid) [] = Inr [(''Desktop Entry'', [(''Name'', ''Broken'')])]"
  by (simp add: manifest_noid_def newline_def is_delimiter_def)

lemma split_manifest_nosection:
  "ini_lines (str_split newline manifest_nosection) [] = Inr [(''Other'', [(''X-KDE-Library'', ''foo'')])]"
  by (simp add: manifest_nosection_def newline_def is_delimiter_def)

lemma Plugins_path_world_pykrita: "Plugins_path demo_env world_pykrita = Inr ''/data/pykrita''"
  by (simp add: Plugins_path_def demo_env_def world_pykrita_def demo_world_def os_path_join_def slash_def)

text \<open>
  C1, as the code has it. \<open>loadFromDesktopContent\<close> on a non-empty text raises and
  leaves the record with its default values, not valid, when the library cannot parse
  the text or when the \<open>[Desktop Entry]\<close> section is absent (KeyError). An absent
  \<open>X-KDE-Library\<close> key is no failure: when no \<open>get\<close> raises and the install root
  exists, the method returns normally with a valid record whose id is empty. The
  record is valid exactly when the method returned normally on a non-empty text.
\<close>

theorem loadFromDesktopContent_validity:
  "(s \<noteq> [] \<and> cfg_read_string env s = Inl e
      \<longrightarrow> loadFromDesktopContent env w p (PyStr s) = (Inl e, defaultValues))
   \<and> (s \<noteq> [] \<and> cfg_read_string env s = Inr cfg \<and> cfg ''Desktop Entry'' = None
      \<longrightarrow> loadFromDesktopContent env w p (PyStr s) = (Inl KeyError, defaultValues))
   \<and> \<not> isValid defaultValues
   \<and> (s \<noteq> [] \<and> cfg_read_string env s = Inr cfg \<and> cfg ''Desktop Entry'' = Some sec
        \<and> sec ''X-KDE-Library'' = None \<and> (\<forall>k x. sec k \<noteq> Some (Inl x))
        \<and> Plugins_path env w = Inr root
      \<longrightarrow> fst (loadFromDesktopContent env w p (PyStr s)) = Inr ()
          \<and> isValid (snd (loadFromDesktopContent env w p (PyStr s)))
          \<and> plugin_id (snd (loadFromDesktopContent env w p (PyStr s))) = [])
   \<and> (isValid (snd (loadFromDesktopContent env w p c))
        \<longleftrightarrow> (\<exists>t. c = PyStr t \<and> t \<noteq> []) \<and> fst (loadFromDesktopContent env w p c) = Inr ())"
proof (intro conjI)
  show "s \<noteq> [] \<and> cfg_read_string env s = Inl e
      \<longrightarrow> loadFromDesktopContent env w p (PyStr s) = (Inl e, defaultValues)"
    by (simp add: loadFromDesktopContent_def)
next
  show "s \<noteq> [] \<and> cfg_read_string env s = Inr cfg \<and> cfg ''Desktop Entry'' = None
      \<longrightarrow> loadFromDesktopContent env w p (PyStr s) = (Inl KeyError, defaultValues)"
    by (simp add: loadFromDesktopContent_def loadFromcfgParser_def)
next
  show "\<not> isValid defaultValues" by (rule not_valid_defaultValues)
next
  show "s \<noteq> [] \<and> cfg_read_string env s = Inr cfg \<and> cfg ''Desktop Entry'' = Some sec
        \<and> sec ''X-KDE-Library'' = None \<and> (\<forall>k x. sec k \<noteq> Some (Inl x))
        \<and> Plugins_path env w = Inr root
      \<longrightarrow> fst (loadFromDesktopContent env w p (PyStr s)) = Inr ()
          \<and> isValid (snd (loadFromDesktopContent env w p (PyStr s)))
          \<and> plugin_id (snd (loadFromDesktopContent env w p (PyStr s))) = []"
  proof
  assume a: "s \<noteq> [] \<and> cfg_read_string env s = Inr cfg \<and> cfg ''Desktop Entry'' = Some sec
        \<and> sec ''X-KDE-Library'' = None \<and> (\<forall>k x. sec k \<noteq> Some (Inl x))
        \<and> Plugins_path env w = Inr root"
  have g: "\<And>k. \<exists>v. settings_get sec k = Inr v"
  proof -
    fix k
    show "\<exists>v. settings_get sec k = Inr v"
    proof (cases "sec k")
      case None then show ?thesis by (simp add: settings_get_def)
    next
      case (Some r) then show ?thesis using a by (cases r) (auto simp: settings_get_def)
    qed
  qed
  have i: "settings_get sec ''X-KDE-Library'' = Inr []"
    using a by (simp add: settings_get_def)
  obtain n where n: "settings_get sec ''Name'' = Inr n" using g by blast
  obtain d where d: "settings_get sec ''Comment'' = Inr d" using g by blast
  obtain m where m: "settings_get sec ''X-Krita-Manual'' = Inr m" using g by blast
  obtain r p1 where rp: "loadFromcfgParser env w defaultValues cfg = (r, p1)"
    by (cases "loadFromcfgParser env w defaultValues cfg")
  have l: "r = Inr () \<and> isValid p1 \<and> plugin_id p1 = []"
    using a i n d m rp by (auto simp add: loadFromcfgParser_def Let_def)
  have e: "loadFromDesktopContent env w p (PyStr s)
             = (Inr (), p1\<lparr>desktopFile := os_path_join root (plugin_id p1 @ ''.desktop'')\<rparr>)"
    using a rp l by (simp add: loadFromDesktopContent_def)
  show "fst (loadFromDesktopContent env w p (PyStr s)) = Inr ()
          \<and> isValid (snd (loadFromDesktopContent env w p (PyStr s)))
          \<and> plugin_id (snd (loadFromDesktopContent env w p (PyStr s))) = []"
    using e l by simp
  qed
next
  show "isValid (snd (loadFromDesktopContent env w p c))
        \<longleftrightarrow> (\<exists>t. c = PyStr t \<and> t \<noteq> []) \<and> fst (loadFromDesktopContent env w p c) = Inr ()"
    by (rule loadFromDesktopContent_valid)
qed

theorem loadFromDesktopContent_validity_witness:
  "manifest_nosection \<noteq> [] \<and>
   projr (cfg_read_string demo_env manifest_nosection) ''Desktop Entry'' = None \<and>
   loadFromDesktopContent demo_env world_pykrita defaultValues (PyStr manifest_nosection)
     = (Inl KeyError, defaultValues) \<and>
   manifest_noid \<noteq> [] \<and>
   isValid (snd (loadFromDesktopContent demo_env world_pykrita defaultValues (PyStr manifest_noid))) \<and>
   plugin_id (snd (loadFromDesktopContent demo_env world_pykrita defaultValues (PyStr manifest_noid))) = []"
proof -
  have c1: "cfg_read_string demo_env manifest_nosection
             = Inr (ini_config [(''Other'', [(''X-KDE-Library'', ''foo'')])])"
    by (simp add: demo_env_def ini_read_string_def split_manifest_nosection)
  have s1: "ini_config [(''Other'', [(''X-KDE-Library'', ''foo'')])] ''Desktop Entry'' = None"
    by (simp add: ini_config_def)
  have n1: "manifest_nosection \<noteq> []"
    by (simp add: manifest_nosection_def)
  have c2: "cfg_read_string demo_env manifest_noid
             = Inr (ini_config [(''Desktop Entry'', [(''Name'', ''Broken'')])])"
    by (simp add: demo_env_def ini_read_string_def split_manifest_noid)
  have s2: "ini_config [(''Desktop Entry'', [(''Name'', ''Broken'')])] ''Desktop Entry''
              = Some (\<lambda>k. map_option Inr (map_of [(''Name'', ''Broken'')] k))"
    by (simp add: ini_config_def)
  have k2: "(\<lambda>k. map_option Inr (map_of [(''Name'', ''Broken'')] k)) ''X-KDE-Library'' = None"
    by simp
  have e2: "\<forall>k x. (\<lambda>k. map_option Inr (map_of [(''Name'', ''Broken'')] k)) k \<noteq> Some (Inl x)"
    by auto
  have n2: "manifest_noid \<noteq> []"
    by (simp add: manifest_noid_def)
  note t1 = loadFromDesktopContent_validity
      [where s = manifest_nosection and env = demo_env
         and cfg = "ini_config [(''Other'', [(''X-KDE-Library'', ''foo'')])]"
         and w = world_pykrita and p = defaultValues]
  note t2 = loadFromDesktopContent_validity
      [where s = manifest_noid and env = demo_env
         and cfg = "ini_config [(''Desktop Entry'', [(''Name'', ''Broken'')])]"
         and w = world_pykrita and p = defaultValues
         and sec = "\<lambda>k. map_option Inr (map_of [(''Name'', ''Broken'')] k)"
         and root = "''/data/pykrita''"]
  show ?thesis
    using t1 t2 c1 s1 n1 c2 s2 k2 e2 n2 Plugins_path_world_pykrita
    by simp
qed

text \<open>
  C1 as stated fails: a manifest with the section and without the id key is loaded
  into a valid record, and nothing is raised.
\<close>

theorem missing_id_key_counterexample:
  "map_option (\<lambda>sec. sec ''X-KDE-Library'')
     (projr (cfg_read_string demo_env manifest_noid) ''Desktop Entry'') = Some None \<and>
   loadFromDesktopContent demo_env world_pykrita defaultValues (PyStr manifest_noid)
     = (Inr (),
        \<lparr>plugin_id = [], plugin_name = ''Broken'', description = [],
         plugin_path = ''/data/pykrita/'', manual = [],
         desktopFile = ''/data/pykrita/.desktop'', isActive = False, isValid = True\<rparr>)"
proof -
  have c: "cfg_read_string demo_env manifest_noid
             = Inr (ini_config [(''Desktop Entry'', [(''Name'', ''Broken'')])])"
    by (simp add: demo_env_def ini_read_string_def split_manifest_noid)
  have n: "manifest_noid \<noteq> []"
    by (simp add: manifest_noid_def)
  have s: "readSetting world_pykrita ''python'' (enable_key []) ''false'' = ''false''"
    by (simp add: readSetting_def world_pykrita_def demo_world_def)
  show ?thesis
    using n
    by (simp add: loadFromDesktopContent_def c loadFromcfgParser_def ini_config_def settings_get_def
        Plugins_path_world_pykrita s defaultValues_def os_path_join_def slash_def)
qed

subsection \<open>Arguments of the wrong type\<close>

text \<open>
  C6, as the code has it. \<open>remove\<close>, \<open>plugin\<close> and \<open>install\<close> raise EInvalidType
  for an argument that is not a str, and the two loaders do for one that is neither a
  str nor \<open>None\<close>. \<open>append\<close> never raises: for an argument that is neither a str
  nor a record it returns \<open>False\<close> and leaves the registry as it is.
\<close>

theorem argument_contract:
  "((\<forall>s. x \<noteq> PyStr s) \<longrightarrow>
       remove reg x = (Inl EInvalidType, reg) \<and> get_plugin reg x = Inl EInvalidType \<and>
       install env x overwrite userChoice w = (Inl EInvalidType, w))
   \<and> ((\<forall>s. x \<noteq> PyStr s) \<and> x \<noteq> PyNone \<longrightarrow>
       loadFromDesktopFile env w p x = (Inl EInvalidType, defaultValues) \<and>
       loadFromDesktopContent env w p x = (Inl EInvalidType, defaultValues))
   \<and> ((\<forall>s. x \<noteq> PyStr s) \<and> (\<forall>q. x \<noteq> PyPlugin q) \<longrightarrow> append env w reg x = (Inr False, reg))
   \<and> (\<forall>e. fst (append env w reg x) \<noteq> Inl e)"
  by (cases x)
     (simp_all add: remove_def get_plugin_def install_def loadFromDesktopFile_def
        loadFromDesktopContent_def append_def append_plugin_def split: sum.splits)

theorem argument_contract_witness:
  "(\<forall>s. PyInt 42 \<noteq> PyStr s) \<and> PyInt 42 \<noteq> PyNone \<and> (\<forall>q. PyInt 42 \<noteq> PyPlugin q) \<and>
   remove [(''baz'', plugin_baz)] (PyInt 42) = (Inl EInvalidType, [(''baz'', plugin_baz)]) \<and>
   get_plugin [(''baz'', plugin_baz)] (PyInt 42) = Inl EInvalidType \<and>
   install demo_env (PyInt 42) None True world_pykrita = (Inl EInvalidType, world_pykrita) \<and>
   loadFromDesktopFile demo_env world_pykrita plugin_baz (PyInt 42) = (Inl EInvalidType, defaultValues) \<and>
   loadFromDesktopContent demo_env world_pykrita plugin_baz (PyInt 42) = (Inl EInvalidType, defaultValues) \<and>
   append demo_env world_pykrita [(''baz'', plugin_baz)] (PyInt 42) = (Inr False, [(''baz'', plugin_baz)])"
  using argument_contract [of "PyInt 42" "[(''baz'', plugin_baz)]" demo_env None True world_pykrita plugin_baz]
  by simp

text \<open>
  C6 as stated fails: \<open>append\<close> with an int returns \<open>False\<close>; it does not raise.
\<close>

theorem append_wrong_shape_counterexample:
  "append demo_env world_pykrita [] (PyInt 42) = (Inr False, []) \<and>
   fst (append demo_env world_pykrita [] (PyInt 42)) \<noteq> Inl EInvalidType"
  by (simp add: append_def)

subsection \<open>Refreshing the registry\<close>

lemma re_search_end_join:
  assumes "re_search_end suf a"
  shows "re_search_end suf (os_path_join root a)"
proof -
  obtain x where x: "os_path_join root a = x @ a"
    by (metis append.assoc append_Nil os_path_join_def)
  show ?thesis
    using assms unfolding x re_search_end_def by (auto intro: suffix_appendI)
qed

lemma loadFromcfgParser_id:
  "cfg ''Desktop Entry'' = Some sec \<Longrightarrow> loadFromcfgParser env w p0 cfg = (Inr u, p) \<Longrightarrow>
   settings_get sec ''X-KDE-Library'' = Inr (plugin_id p) \<and> isValid p \<and> desktopFile p = desktopFile p0"
  by (auto simp: loadFromcfgParser_def Let_def split: sum.splits)

lemma append_corrupt:
  assumes "corrupt_manifest env w file"
  shows "append env w reg (PyStr file) = (Inr False, reg)"
proof (cases "Plugin_new env w (PyStr file)")
  case (Inl e)
  then show ?thesis by (simp add: append_def)
next
  case (Inr p)
  then obtain cfg where c: "cfg_read env (fs w) file = Inr cfg"
    and l: "loadFromcfgParser env w (defaultValues\<lparr>desktopFile := file\<rparr>) cfg = (Inr (), p)"
    by (auto simp: Plugin_new_def loadFromDesktopFile_def Let_def
        split: if_splits sum.splits prod.splits)
  from l obtain sec where s: "cfg ''Desktop Entry'' = Some sec"
    by (auto simp: loadFromcfgParser_def split: option.splits)
  have "sec ''X-KDE-Library'' = None"
    using assms c s by (simp add: corrupt_manifest_def)
  then have "plugin_id p = []"
    using loadFromcfgParser_id[where cfg = cfg and sec = sec, OF s l] by (simp add: settings_get_def)
  then show ?thesis using Inr by (simp add: append_def append_plugin_def)
qed

lemma settings_get_total:
  "\<forall>k x. sec k \<noteq> Some (Inl x) \<Longrightarrow> \<exists>v. settings_get sec k = Inr v"
proof (cases "sec k")
  case None
  then show ?thesis by (simp add: settings_get_def)
next
  case (Some r)
  assume "\<forall>k x. sec k \<noteq> Some (Inl x)"
  then show ?thesis using Some by (cases r) (auto simp: settings_get_def)
qed

lemma loadFromcfgParser_ok:
  assumes "cfg ''Desktop Entry'' = Some sec" and "\<forall>k x. sec k \<noteq> Some (Inl x)"
    and "Plugins_path env w = Inr root"
  shows "\<exists>p. loadFromcfgParser env w p0 cfg = (Inr (), p)"
proof -
  obtain i where i: "settings_get sec ''X-KDE-Library'' = Inr i"
    using settings_get_total[OF assms(2)] by blast
  obtain n where n: "settings_get sec ''Name'' = Inr n"
    using settings_get_total[OF assms(2)] by blast
  obtain c where c: "settings_get sec ''Comment'' = Inr c"
    using settings_get_total[OF assms(2)] by blast
  obtain m where m: "settings_get sec ''X-Krita-Manual'' = Inr m"
    using settings_get_total[OF assms(2)] by blast
  show ?thesis
    using assms(1,3) i n c m by (simp add: loadFromcfgParser_def Let_def)
qed

lemma append_valid:
  assumes "Plugins_path env w = Inr root"
    and "os_path_isfile env (fs w) file" and "re_search_end ''.desktop'' file"
    and "cfg_read env (fs w) file = Inr cfg" and "cfg ''Desktop Entry'' = Some sec"
    and "sec ''X-KDE-Library'' = Some (Inr i)" and "i \<noteq> []"
    and "\<forall>k x. sec k \<noteq> Some (Inl x)"
  shows "\<exists>p. append env w reg (PyStr file) = (Inr True, AList.update i p reg)
             \<and> plugin_id p = i \<and> isValid p \<and> desktopFile p = file"
proof -
  obtain p where l: "loadFromcfgParser env w (defaultValues\<lparr>desktopFile := file\<rparr>) cfg = (Inr (), p)"
    using loadFromcfgParser_ok[where cfg = cfg and sec = sec and env = env and w = w and root = root]
      assms(5,8,1) by blast
  have p: "plugin_id p = i" "isValid p" "desktopFile p = file"
    using loadFromcfgParser_id[where cfg = cfg and sec = sec, OF assms(5) l] assms(6)
    by (simp_all add: settings_get_def)
  have "Plugin_new env w (PyStr file) = Inr p"
    using assms(2,3,4) l by (simp add: Plugin_new_def loadFromDesktopFile_def)
  then have "append env w reg (PyStr file) = (Inr True, AList.update i p reg)"
    using p assms(7) by (simp add: append_def append_plugin_def)
  then show ?thesis using p by blast
qed

text \<open>
  C7. The install root holds two manifest files, listed in either order: a valid one
  whose id \<open>i\<close> is not empty (\<open>foo\<close> in the scenario) and a corrupt one (no id key,
  no section, or not parsable). \<open>refresh\<close> returns normally and the registry holds
  exactly one record, under \<open>i\<close>, with that id and valid.
\<close>

theorem refresh_skips_corrupt:
  assumes "Plugins_path env w = Inr root"
    and "os_scandir env (fs w) root = Inr files" and "files = [a, b] \<or> files = [b, a]"
    and "re_search_end ''.desktop'' a" and "re_search_end ''.desktop'' b"
    and "os_path_isfile env (fs w) (os_path_join root a)"
    and "cfg_read env (fs w) (os_path_join root a) = Inr cfg"
    and "cfg ''Desktop Entry'' = Some sec"
    and "sec ''X-KDE-Library'' = Some (Inr i)" and "i \<noteq> []"
    and "\<forall>k x. sec k \<noteq> Some (Inl x)"
    and "corrupt_manifest env w (os_path_join root b)"
  shows "\<exists>p. refresh env w reg = (Inr (), [(i, p)]) \<and> plugin_id p = i \<and> isValid p"
proof -
  obtain p where a: "append env w [] (PyStr (os_path_join root a)) = (Inr True, AList.update i p [])"
    and p: "plugin_id p = i" "isValid p"
    using append_valid[where cfg = cfg and sec = sec and reg = "[]", OF assms(1,6)
        re_search_end_join[OF assms(4)] assms(7,8,9,10,11)]
    by blast
  have b: "\<And>r. append env w r (PyStr (os_path_join root b)) = (Inr False, r)"
    by (rule append_corrupt[OF assms(12)])
  have "buildList_loop env w files [] = (Inr (), [(i, p)])"
    using assms(3)
  proof
    assume "files = [a, b]"
    then show ?thesis using assms(1,4,5) a b by simp
  next
    assume "files = [b, a]"
    then show ?thesis using assms(1,4,5) a b by simp
  qed
  then have "refresh env w reg = (Inr (), [(i, p)])"
    using assms(1,2) by (simp add: refresh_def buildList_def)
  then show ?thesis using p by blast
qed

subsection \<open>Installation\<close>

lemma install_not_accepted:
  assumes "os_path_isfile env (fs w) z" and "zip_open env (fs w) z = Inr archive"
    and "\<forall>p d i. install_validate env w archive \<noteq> Inr (Accepted p d i)"
  shows "install env (PyStr z) overwrite userChoice w = (Inr None, w)"
proof (cases "install_validate env w archive")
  case (Inl e)
  then show ?thesis using assms by (simp add: install_def install_try_def)
next
  case (Inr v)
  then show ?thesis using assms by (cases v) (simp_all add: install_def install_try_def)
qed
lemma loadFromcfgParser_active:
  "loadFromcfgParser env w p0 cfg = (Inr u, p) \<Longrightarrow>
   isActive p = (readSetting w ''python'' (enable_key (plugin_id p)) ''false'' = ''true'')"
  by (auto simp: loadFromcfgParser_def Let_def split: option.splits sum.splits)

lemma loadFromDesktopContent_active:
  "loadFromDesktopContent env w p0 (PyStr s) = (Inr u, p) \<Longrightarrow> isValid p \<Longrightarrow>
   isActive p = (readSetting w ''python'' (enable_key (plugin_id p)) ''false'' = ''true'')"
  by (auto simp: loadFromDesktopContent_def defaultValues_def
      split: if_splits option.splits sum.splits prod.splits dest!: loadFromcfgParser_active)

lemma install_validate_accepted:
  "install_validate env w archive = Inr (Accepted p d i) \<Longrightarrow>
   isValid p \<and> isActive p = (readSetting w ''python'' (enable_key (plugin_id p)) ''false'' = ''true'')"
  by (auto simp: install_validate_def Let_def
      split: if_splits option.splits sum.splits prod.splits dest: loadFromDesktopContent_active)

lemma install_try_Some:
  "install_try env z ov uc w = (Inr (Some q), w') \<Longrightarrow> isActive q"
proof -
  assume a: "install_try env z ov uc w = (Inr (Some q), w')"
  then obtain p w2 where "activate env p w2 = (Inr (), q, w')"
    by (auto simp: install_try_def split: sum.splits validation.splits prod.splits bool.splits option.splits)
  then show ?thesis using activate_result_active[of env p w2 "()"] by simp
qed

lemma install_Some: "install env x overwrite uc w = (Inr (Some q), w') \<Longrightarrow> isActive q"
  by (auto simp: install_def Let_def split: pyval.splits if_splits prod.splits sum.splits
      dest: install_try_Some)

text \<open>
  C4. An archive with no manifest, with more than one, or whose manifest gives an id
  for which no entry has a name ending in \<open>id/__init__.py\<close>, is rejected: \<open>install\<close>
  returns \<open>None\<close> and the world, its filesystem included, is the one it was given.
\<close>

theorem install_rejects_structure:
  assumes "os_path_isfile env (fs w) z" and "zip_open env (fs w) z = Inr archive"
    and "length (filter (re_search_end ''.desktop'') (map fst archive)) = 0
         \<or> length (filter (re_search_end ''.desktop'') (map fst archive)) > 1
         \<or> (\<exists>d content p.
               filter (re_search_end ''.desktop'') (map fst archive) = [d]
               \<and> map_of archive d = Some content
               \<and> loadFromDesktopContent env w defaultValues (PyStr content) = (Inr (), p)
               \<and> filter (re_search_end (os_path_join (plugin_id p) ''__init__.py''))
                     (map fst archive) = [])"
  shows "install env (PyStr z) overwrite userChoice w = (Inr None, w)"
proof (rule install_not_accepted[OF assms(1,2)])
  let ?desktopFile = "filter (re_search_end ''.desktop'') (map fst archive)"
  consider (none) "length ?desktopFile = 0" | (many) "length ?desktopFile > 1"
    | (noinit) d content p where "?desktopFile = [d]" "map_of archive d = Some content"
        "loadFromDesktopContent env w defaultValues (PyStr content) = (Inr (), p)"
        "filter (re_search_end (os_path_join (plugin_id p) ''__init__.py'')) (map fst archive) = []"
    using assms(3) by blast
  then show "\<forall>p d i. install_validate env w archive \<noteq> Inr (Accepted p d i)"
  proof cases
    case none
    then show ?thesis unfolding install_validate_def Let_def by simp
  next
    case many
    then show ?thesis unfolding install_validate_def Let_def by simp
  next
    case noinit
    then show ?thesis unfolding install_validate_def Let_def by simp
  qed
qed

text \<open>
  C3, as the code has it. The record that validation builds is valid and its active
  flag is what the settings store says for its id at that moment: it is inactive
  unless the stored value is \<open>true\<close>. Once the files are extracted \<open>install\<close> calls
  \<open>activate\<close> on it and returns what \<open>activate\<close> leaves, or \<open>None\<close> when
  \<open>activate\<close> raises; a record that \<open>install\<close> returns is active.
\<close>

theorem install_activation:
  "(install_validate env w archive = Inr (Accepted p d i) \<longrightarrow>
      isValid p \<and>
      isActive p = (readSetting w ''python'' (enable_key (plugin_id p)) ''false'' = ''true''))
   \<and> (os_path_isfile env (fs w) z \<and> zip_open env (fs w) z = Inr archive
        \<and> install_validate env w archive = Inr (Accepted p d i)
        \<and> install_directory env p overwrite userChoice w = (Inr True, w1)
        \<and> extract_files env p (path_length d) (path_length i) archive w1 = (None, w2)
      \<longrightarrow> install env (PyStr z) (Some overwrite) userChoice w
            = (case activate env p w2 of
                 (Inl e, p1, w3) \<Rightarrow> (Inr None, w3)
               | (Inr u, p1, w3) \<Rightarrow> (Inr (Some p1), w3)))
   \<and> (install env x overwrite' userChoice w = (Inr (Some q), w') \<longrightarrow> isActive q)"
proof (intro conjI)
  show "install_validate env w archive = Inr (Accepted p d i) \<longrightarrow>
      isValid p \<and>
      isActive p = (readSetting w ''python'' (enable_key (plugin_id p)) ''false'' = ''true'')"
    using install_validate_accepted by blast
next
  show "os_path_isfile env (fs w) z \<and> zip_open env (fs w) z = Inr archive
        \<and> install_validate env w archive = Inr (Accepted p d i)
        \<and> install_directory env p overwrite userChoice w = (Inr True, w1)
        \<and> extract_files env p (path_length d) (path_length i) archive w1 = (None, w2)
      \<longrightarrow> install env (PyStr z) (Some overwrite) userChoice w
            = (case activate env p w2 of
                 (Inl e, p1, w3) \<Rightarrow> (Inr None, w3)
               | (Inr u, p1, w3) \<Rightarrow> (Inr (Some p1), w3))"
    by (simp add: install_def install_try_def split: prod.splits sum.splits)
next
  show "install env x overwrite' userChoice w = (Inr (Some q), w') \<longrightarrow> isActive q"
    using install_Some by blast
qed

subsection \<open>Running the installation\<close>

lemma re_search_end_eval:
  "re_search_end suf s \<longleftrightarrow> prefix (rev suf) (rev s) \<or> prefix (newline # rev suf) (rev s)"
  by (simp add: re_search_end_def suffix_to_prefix)

lemma split_manifest_baz:
  "ini_lines (str_split newline manifest_baz) []
     = Inr [(''Desktop Entry'', [(''X-KDE-Library'', ''baz''), (''Name'', ''Baz'')])]"
  by (simp add: manifest_baz_def newline_def is_delimiter_def)

lemma split_manifest_foo:
  "ini_lines (str_split newline manifest_foo) []
     = Inr [(''Desktop Entry'', [(''X-KDE-Library'', ''foo''), (''Name'', ''Foo'')])]"
  by (simp add: manifest_foo_def newline_def is_delimiter_def)

lemma Plugins_path_world_zip: "Plugins_path demo_env (world_zip a) = Inr ''/data/pykrita''"
  by (simp add: Plugins_path_def demo_env_def world_zip_def demo_world_def os_path_join_def slash_def)

lemma load_manifest_baz:
  assumes "Plugins_path demo_env w = Inr ''/data/pykrita''"
  shows "loadFromDesktopContent demo_env w defaultValues (PyStr manifest_baz)
           = (Inr (), plugin_baz\<lparr>isActive := (settings w (''python'', ''enable_baz'') = Some ''true'')\<rparr>)"
proof -
  have c: "cfg_read_string demo_env manifest_baz
             = Inr (ini_config [(''Desktop Entry'', [(''X-KDE-Library'', ''baz''), (''Name'', ''Baz'')])])"
    by (simp add: demo_env_def ini_read_string_def split_manifest_baz)
  have n: "manifest_baz \<noteq> []"
    by (simp add: manifest_baz_def)
  have s: "(readSetting w ''python'' ''enable_baz'' ''false'' = ''true'')
             = (settings w (''python'', ''enable_baz'') = Some ''true'')"
    by (simp add: readSetting_def split: option.splits)
  show ?thesis
    using n
    by (simp add: loadFromDesktopContent_def c loadFromcfgParser_def ini_config_def settings_get_def
        assms s defaultValues_def plugin_baz_def os_path_join_def slash_def enable_key_def)
qed

lemma validate_archive_baz:
  assumes "Plugins_path demo_env w = Inr ''/data/pykrita''"
  shows "install_validate demo_env w archive_baz
           = Inr (Accepted (plugin_baz\<lparr>isActive := (settings w (''python'', ''enable_baz'') = Some ''true'')\<rparr>)
                   ''baz.desktop'' ''baz/__init__.py'')"
  by (simp add: install_validate_def Let_def archive_baz_def re_search_end_eval newline_def
      load_manifest_baz[OF assms, unfolded manifest_baz_def] manifest_baz_def plugin_baz_def os_path_join_def slash_def)

lemma path_lengths:
  "path_length ''baz.desktop'' = 0" "path_length ''baz/__init__.py'' = 4"
  by (simp_all add: path_length_def os_path_dirname_def path_head_def rstrip_slash_def slash_def)

lemma routes_archive_baz:
  "extract_route ''baz'' 0 4 ''baz.desktop'' = Some (InstallRoot, ''baz.desktop'')"
  "extract_route ''baz'' 0 4 ''baz/__init__.py'' = Some (PluginDirectory, ''__init__.py'')"
  "extract_route ''baz'' 0 4 ''baz/helper.py'' = Some (PluginDirectory, ''helper.py'')"
  "extract_route ''baz'' 0 4 ''README.txt'' = Some (PluginDirectory, ''ME.txt'')"
  by (simp_all add: extract_route_def os_path_basename_def slash_def)
lemma fs_world_zip:
  "fs (world_zip a) = [(''/data'', Dir), (''/data/pykrita'', Dir), (''/tmp/plugin.zip'', Archive a)]"
  by (simp add: world_zip_def demo_world_def)

lemma Plugins_path_fs:
  "fs w = fs (world_zip a) \<Longrightarrow> Plugins_path demo_env w = Inr ''/data/pykrita''"
  by (simp add: Plugins_path_def demo_env_def fs_world_zip os_path_join_def slash_def)

lemma open_world_zip:
  assumes "fs w = fs (world_zip a)"
  shows "os_path_isfile demo_env (fs w) ''/tmp/plugin.zip''"
    and "zip_open demo_env (fs w) ''/tmp/plugin.zip'' = Inr a"
  using assms by (simp_all add: demo_env_def fs_world_zip)

lemma install_directory_baz:
  assumes "fs w = fs (world_zip archive_baz)" and "plugin_path p = ''/data/pykrita/baz''"
  shows "install_directory demo_env p ov uc w
           = (Inr True, w\<lparr>fs := fs (world_zip archive_baz) @ [(''/data/pykrita/baz'', Dir)]\<rparr>)"
  using assms by (simp add: install_directory_def demo_env_def fs_world_zip)

lemma extract_archive_baz:
  assumes "plugin_id p = ''baz''" and "plugin_path p = ''/data/pykrita/baz''"
  shows "extract_files demo_env p 0 4 archive_baz
           (w\<lparr>fs := fs (world_zip archive_baz) @ [(''/data/pykrita/baz'', Dir)]\<rparr>)
         = (None, w\<lparr>fs := fs_installed\<rparr>)"
  by (simp add: archive_baz_def[of] assms routes_archive_baz destination_path_def Plugins_path_def
        demo_env_def fs_world_zip os_path_join_def slash_def fs_installed_def)
lemma fs_world_enabled: "fs world_enabled = fs (world_zip archive_baz)"
  by (simp add: world_enabled_def)

lemma plugin_baz_fields:
  "plugin_id (plugin_baz\<lparr>isActive := b\<rparr>) = ''baz''"
  "plugin_path (plugin_baz\<lparr>isActive := b\<rparr>) = ''/data/pykrita/baz''"
  "plugin_id plugin_baz = ''baz''"
  "plugin_path plugin_baz = ''/data/pykrita/baz''"
  "\<not> isActive plugin_baz"
  "plugin_baz\<lparr>isActive := False\<rparr> = plugin_baz"
  by (simp_all add: plugin_baz_def)
lemma activate_installed:
  "activate demo_env plugin_baz ((world_zip archive_baz)\<lparr>fs := fs_installed\<rparr>)
     = (Inr (), plugin_baz\<lparr>isActive := True\<rparr>, world_installed)"
  by (simp add: activate_def plugin_baz_fields enable_key_def writeSetting_def os_path_join_def
      slash_def demo_env_def fs_installed_def world_zip_def demo_world_def world_installed_def)

theorem install_rejects_structure_witness:
  "os_path_isfile demo_env (fs (world_zip archive_two_manifests)) ''/tmp/plugin.zip'' \<and>
   zip_open demo_env (fs (world_zip archive_two_manifests)) ''/tmp/plugin.zip'' = Inr archive_two_manifests \<and>
   length (filter (re_search_end ''.desktop'') (map fst archive_two_manifests)) = 2 \<and>
   install demo_env (PyStr ''/tmp/plugin.zip'') None True (world_zip archive_two_manifests)
     = (Inr None, world_zip archive_two_manifests) \<and>
   filter (re_search_end ''.desktop'') (map fst archive_no_init) = [''baz.desktop''] \<and>
   loadFromDesktopContent demo_env (world_zip archive_no_init) defaultValues (PyStr manifest_baz)
     = (Inr (), plugin_baz) \<and>
   filter (re_search_end (os_path_join (plugin_id plugin_baz) ''__init__.py''))
     (map fst archive_no_init) = [] \<and>
   install demo_env (PyStr ''/tmp/plugin.zip'') None True (world_zip archive_no_init)
     = (Inr None, world_zip archive_no_init) \<and>
   install demo_env (PyStr ''/tmp/plugin.zip'') None True (world_zip [])
     = (Inr None, world_zip [])"
proof -
  have two: "length (filter (re_search_end ''.desktop'') (map fst archive_two_manifests)) = 2"
    by (simp add: archive_two_manifests_def re_search_end_eval newline_def)
  have one: "filter (re_search_end ''.desktop'') (map fst archive_no_init) = [''baz.desktop'']"
    by (simp add: archive_no_init_def re_search_end_eval newline_def)
  have m: "map_of archive_no_init ''baz.desktop'' = Some manifest_baz"
    by (simp add: archive_no_init_def)
  have s: "settings (world_zip archive_no_init) (''python'', ''enable_baz'') = None"
    by (simp add: world_zip_def demo_world_def)
  have l: "loadFromDesktopContent demo_env (world_zip archive_no_init) defaultValues (PyStr manifest_baz)
             = (Inr (), plugin_baz)"
    using load_manifest_baz[OF Plugins_path_fs[OF refl]] s by (simp add: plugin_baz_fields)
  have n: "filter (re_search_end (os_path_join (plugin_id plugin_baz) ''__init__.py''))
             (map fst archive_no_init) = []"
    by (simp add: archive_no_init_def re_search_end_eval newline_def plugin_baz_fields
        os_path_join_def slash_def)
  note t2 = install_rejects_structure
    [OF open_world_zip[OF refl, of archive_two_manifests], of None True]
  note t1 = install_rejects_structure
    [OF open_world_zip[OF refl, of archive_no_init], of None True]
  note t0 = install_rejects_structure
    [OF open_world_zip[OF refl, of "[]"], of None True]
  have r2: "install demo_env (PyStr ''/tmp/plugin.zip'') None True (world_zip archive_two_manifests)
              = (Inr None, world_zip archive_two_manifests)"
    using t2 two by simp
  have r1: "install demo_env (PyStr ''/tmp/plugin.zip'') None True (world_zip archive_no_init)
              = (Inr None, world_zip archive_no_init)"
    using t1 one m l n by simp
  have r0: "install demo_env (PyStr ''/tmp/plugin.zip'') None True (world_zip [])
              = (Inr None, world_zip [])"
    using t0 by simp
  show ?thesis
    using open_world_zip[OF refl, of archive_two_manifests] two r2 one l n r1 r0 by simp
qed

theorem install_activation_witness:
  "install_validate demo_env (world_zip archive_baz) archive_baz
     = Inr (Accepted plugin_baz ''baz.desktop'' ''baz/__init__.py'') \<and>
   isValid plugin_baz \<and> \<not> isActive plugin_baz \<and>
   readSetting (world_zip archive_baz) ''python'' (enable_key (plugin_id plugin_baz)) ''false'' = ''false'' \<and>
   install demo_env (PyStr ''/tmp/plugin.zip'') (Some 0) True (world_zip archive_baz)
     = (Inr (Some (plugin_baz\<lparr>isActive := True\<rparr>)), world_installed) \<and>
   isActive (plugin_baz\<lparr>isActive := True\<rparr>)"
proof -
  have s: "settings (world_zip archive_baz) (''python'', ''enable_baz'') = None"
    by (simp add: world_zip_def demo_world_def)
  have v: "install_validate demo_env (world_zip archive_baz) archive_baz
             = Inr (Accepted plugin_baz ''baz.desktop'' ''baz/__init__.py'')"
    using validate_archive_baz[OF Plugins_path_fs[OF refl]] s
    by (simp add: plugin_baz_fields)
  have r: "readSetting (world_zip archive_baz) ''python'' (enable_key (plugin_id plugin_baz)) ''false''
             = ''false''"
    using s by (simp add: readSetting_def enable_key_def plugin_baz_fields)
  have d: "install_directory demo_env plugin_baz 0 True (world_zip archive_baz)
             = (Inr True, (world_zip archive_baz)
                  \<lparr>fs := fs (world_zip archive_baz) @ [(''/data/pykrita/baz'', Dir)]\<rparr>)"
    by (rule install_directory_baz[OF refl plugin_baz_fields(4)])
  have x: "extract_files demo_env plugin_baz (path_length ''baz.desktop'')
             (path_length ''baz/__init__.py'') archive_baz
             ((world_zip archive_baz)\<lparr>fs := fs (world_zip archive_baz) @ [(''/data/pykrita/baz'', Dir)]\<rparr>)
           = (None, (world_zip archive_baz)\<lparr>fs := fs_installed\<rparr>)"
    unfolding path_lengths by (rule extract_archive_baz[OF plugin_baz_fields(3,4)])
  note t = install_activation
    [where env = demo_env and w = "world_zip archive_baz" and archive = archive_baz
       and p = plugin_baz and d = "''baz.desktop''" and i = "''baz/__init__.py''"
       and z = "''/tmp/plugin.zip''" and overwrite = 0 and userChoice = True
       and ?w1.0 = "(world_zip archive_baz)\<lparr>fs := fs (world_zip archive_baz) @ [(''/data/pykrita/baz'', Dir)]\<rparr>"
       and ?w2.0 = "(world_zip archive_baz)\<lparr>fs := fs_installed\<rparr>"
       and x = "PyStr ''/tmp/plugin.zip''" and overwrite' = "Some 0"
       and q = "plugin_baz\<lparr>isActive := True\<rparr>" and w' = world_installed]
  show ?thesis
    using t v r d x open_world_zip[OF refl, of archive_baz] activate_installed
    by simp
qed

text \<open>
  C3 as stated fails: when the settings store already holds \<open>true\<close> for the id, the
  record that an accepted archive gives is active, \<open>activate\<close> returns at once, and
  \<open>install\<close> returns the record without any module loaded.
\<close>

theorem install_enabled_counterexample:
  "install_validate demo_env world_enabled archive_baz
     = Inr (Accepted (plugin_baz\<lparr>isActive := True\<rparr>) ''baz.desktop'' ''baz/__init__.py'') \<and>
   install demo_env (PyStr ''/tmp/plugin.zip'') None True world_enabled
     = (Inr (Some (plugin_baz\<lparr>isActive := True\<rparr>)), world_enabled\<lparr>fs := fs_installed\<rparr>) \<and>
   modules (world_enabled\<lparr>fs := fs_installed\<rparr>) = []"
proof -
  have v: "install_validate demo_env world_enabled archive_baz
             = Inr (Accepted (plugin_baz\<lparr>isActive := True\<rparr>) ''baz.desktop'' ''baz/__init__.py'')"
    using validate_archive_baz[OF Plugins_path_fs[OF fs_world_enabled]]
    by (simp add: world_enabled_def)
  have i: "install demo_env (PyStr ''/tmp/plugin.zip'') None True world_enabled
             = (Inr (Some (plugin_baz\<lparr>isActive := True\<rparr>)), world_enabled\<lparr>fs := fs_installed\<rparr>)"
    by (simp add: install_def install_try_def open_world_zip[OF fs_world_enabled] v
        install_directory_baz[OF fs_world_enabled] plugin_baz_fields path_lengths
        extract_archive_baz activate_def)
  have m: "modules (world_enabled\<lparr>fs := fs_installed\<rparr>) = []"
    by (simp add: world_enabled_def world_zip_def demo_world_def)
  show ?thesis using v i m by simp
qed

subsection \<open>The extraction loop\<close>

text \<open>
  What each branch of the loop does with a name: the manifest and the action file lose
  the first \<open>rootPathLength\<close> characters; another name that is longer than
  \<open>initPathLength\<close> loses that many characters, and is not extracted otherwise. For
  a name under the directory of the entry module this removes the directory.
\<close>

lemma dirname_prefix_length:
  "os_path_dirname f \<noteq> [] \<Longrightarrow> path_length f = length (os_path_dirname f) + 1"
  by (simp add: path_length_def)
lemma extraction_routes:
  "(os_path_basename filename = pluginId @ ''.desktop'' \<longrightarrow>
      extract_route pluginId r i filename = Some (InstallRoot, drop r filename))
   \<and> (os_path_basename filename \<noteq> pluginId @ ''.desktop''
        \<and> os_path_basename filename = pluginId @ ''.action'' \<longrightarrow>
      extract_route pluginId r i filename = Some (ActionsDirectory, drop r filename))
   \<and> (os_path_basename filename \<noteq> pluginId @ ''.desktop''
        \<and> os_path_basename filename \<noteq> pluginId @ ''.action''
        \<and> length filename > i \<longrightarrow>
      extract_route pluginId r i filename = Some (PluginDirectory, drop i filename))
   \<and> (os_path_basename filename \<noteq> pluginId @ ''.desktop''
        \<and> os_path_basename filename \<noteq> pluginId @ ''.action''
        \<and> length filename \<le> i \<longrightarrow>
      extract_route pluginId r i filename = None)
   \<and> (os_path_basename filename \<noteq> pluginId @ ''.desktop''
        \<and> os_path_basename filename \<noteq> pluginId @ ''.action''
        \<and> os_path_dirname initFileName \<noteq> []
        \<and> filename = os_path_dirname initFileName @ [slash] @ rest \<and> rest \<noteq> [] \<longrightarrow>
      extract_route pluginId r (path_length initFileName) filename = Some (PluginDirectory, rest))"
  by (simp add: extract_route_def dirname_prefix_length)

lemma extraction_routes_example:
  "extract_route ''baz'' 0 4 ''baz.desktop'' = Some (InstallRoot, ''baz.desktop'') \<and>
   extract_route ''baz'' 0 4 ''baz.action'' = Some (ActionsDirectory, ''baz.action'') \<and>
   os_path_dirname ''baz/__init__.py'' = ''baz'' \<and>
   extract_route ''baz'' 0 (path_length ''baz/__init__.py'') ''baz/helper.py''
     = Some (PluginDirectory, ''helper.py'') \<and>
   extract_route ''baz'' 0 4 ''baz/'' = None"
proof -
  have b: "os_path_basename ''baz.desktop'' = ''baz.desktop''"
    "os_path_basename ''baz.action'' = ''baz.action''"
    "os_path_basename ''baz/helper.py'' = ''helper.py''"
    "os_path_basename ''baz/'' = []"
    by (simp_all add: os_path_basename_def slash_def)
  have d: "os_path_dirname ''baz/__init__.py'' = ''baz''"
    by (simp add: os_path_dirname_def path_head_def rstrip_slash_def slash_def)
  show ?thesis
    using b d
      extraction_routes [of "''baz.desktop''" "''baz''" 0 4]
      extraction_routes [of "''baz.action''" "''baz''" 0 4]
      extraction_routes [of "''baz/''" "''baz''" 0 4]
      extraction_routes [of "''baz/helper.py''" "''baz''" 0 4 "''baz/__init__.py''" "''helper.py''"]
    by (simp add: slash_def)
qed

text \<open>
  C2. The loop does not test that a name is under the directory of the entry module:
  it compares lengths. In the accepted archive \<open>archive_baz\<close> the entry \<open>README.txt\<close>
  is not under \<open>baz/\<close>; it is longer than the four characters of \<open>baz/\<close>, so it
  is extracted into the install directory of the plugin, as \<open>ME.txt\<close>.
\<close>

theorem extraction_outside_prefix:
  "install_validate demo_env (world_zip archive_baz) archive_baz
     = Inr (Accepted plugin_baz ''baz.desktop'' ''baz/__init__.py'') \<and>
   map_of archive_baz ''README.txt'' = Some ''hello'' \<and>
   \<not> prefix ''baz/'' ''README.txt'' \<and>
   extract_route ''baz'' (path_length ''baz.desktop'') (path_length ''baz/__init__.py'') ''README.txt''
     = Some (PluginDirectory, ''ME.txt'') \<and>
   install demo_env (PyStr ''/tmp/plugin.zip'') None True (world_zip archive_baz)
     = (Inr (Some (plugin_baz\<lparr>isActive := True\<rparr>)), world_installed) \<and>
   map_of (fs world_installed) ''/data/pykrita/baz/ME.txt'' = Some (File ''hello'')"
proof -
  have s: "settings (world_zip archive_baz) (''python'', ''enable_baz'') = None"
    by (simp add: world_zip_def demo_world_def)
  have v: "install_validate demo_env (world_zip archive_baz) archive_baz
             = Inr (Accepted plugin_baz ''baz.desktop'' ''baz/__init__.py'')"
    using validate_archive_baz[OF Plugins_path_fs[OF refl]] s
    by (simp add: plugin_baz_fields)
  have i: "install demo_env (PyStr ''/tmp/plugin.zip'') None True (world_zip archive_baz)
             = (Inr (Some (plugin_baz\<lparr>isActive := True\<rparr>)), world_installed)"
    by (simp add: install_def install_try_def open_world_zip[OF refl] v
        install_directory_baz[OF refl] plugin_baz_fields path_lengths
        extract_archive_baz activate_installed)
  have f: "map_of (fs world_installed) ''/data/pykrita/baz/ME.txt'' = Some (File ''hello'')"
    by (simp add: world_installed_def fs_installed_def)
  show ?thesis
    using v i f by (simp add: archive_baz_def path_lengths routes_archive_baz)
qed

subsection \<open>Running the refresh\<close>

lemma scandir_world_manifests:
  "os_scandir demo_env (fs world_manifests) ''/data/pykrita'' = Inr [''a.desktop'', ''b.desktop'']"
  by (simp add: demo_env_def world_manifests_def demo_world_def os_path_dirname_def path_head_def
      rstrip_slash_def os_path_basename_def slash_def)

theorem refresh_skips_corrupt_witness:
  "Plugins_path demo_env world_manifests = Inr ''/data/pykrita'' \<and>
   os_scandir demo_env (fs world_manifests) ''/data/pykrita'' = Inr [''a.desktop'', ''b.desktop''] \<and>
   cfg_read demo_env (fs world_manifests) ''/data/pykrita/a.desktop''
     = Inr (ini_config [(''Desktop Entry'', [(''X-KDE-Library'', ''foo''), (''Name'', ''Foo'')])]) \<and>
   corrupt_manifest demo_env world_manifests ''/data/pykrita/b.desktop'' \<and>
   (\<exists>p. refresh demo_env world_manifests [] = (Inr (), [(''foo'', p)])
        \<and> plugin_id p = ''foo'' \<and> isValid p)"
proof -
  let ?cfg = "ini_config [(''Desktop Entry'', [(''X-KDE-Library'', ''foo''), (''Name'', ''Foo'')])]"
  let ?sec = "\<lambda>k. map_option Inr (map_of [(''X-KDE-Library'', ''foo''), (''Name'', ''Foo'')] k)
                :: (exn + string) option"
  have root: "Plugins_path demo_env world_manifests = Inr ''/data/pykrita''"
    by (simp add: Plugins_path_def demo_env_def world_manifests_def demo_world_def os_path_join_def
        slash_def)
  have j: "os_path_join ''/data/pykrita'' ''a.desktop'' = ''/data/pykrita/a.desktop''"
    "os_path_join ''/data/pykrita'' ''b.desktop'' = ''/data/pykrita/b.desktop''"
    by (simp_all add: os_path_join_def slash_def)
  have e: "re_search_end ''.desktop'' ''a.desktop''" "re_search_end ''.desktop'' ''b.desktop''"
    by (simp_all add: re_search_end_eval)
  have f: "os_path_isfile demo_env (fs world_manifests) ''/data/pykrita/a.desktop''"
    by (simp add: demo_env_def world_manifests_def demo_world_def)
  have c: "cfg_read demo_env (fs world_manifests) ''/data/pykrita/a.desktop'' = Inr ?cfg"
    by (simp add: demo_env_def world_manifests_def demo_world_def ini_read_string_def
        split_manifest_foo)
  have s: "?cfg ''Desktop Entry'' = Some ?sec"
    by (simp add: ini_config_def)
  have i: "?sec ''X-KDE-Library'' = Some (Inr ''foo'')"
    by simp
  have g: "\<forall>k x. ?sec k \<noteq> Some (Inl x)"
    by auto
  have b: "corrupt_manifest demo_env world_manifests ''/data/pykrita/b.desktop''"
    by (simp add: corrupt_manifest_def demo_env_def world_manifests_def demo_world_def
        ini_read_string_def split_manifest_noid ini_config_def)
  have "\<exists>p. refresh demo_env world_manifests [] = (Inr (), [(''foo'', p)])
        \<and> plugin_id p = ''foo'' \<and> isValid p"
    by (rule refresh_skips_corrupt[where a = "''a.desktop''" and b = "''b.desktop''"
          and cfg = ?cfg and sec = ?sec, OF root scandir_world_manifests _ e])
       (use j f c s i g b in simp_all)
  then show ?thesis
    using root scandir_world_manifests c b by simp
qed

end
